theory Spec2Isabelle
  imports Complex_Main "HOL-Library.Log_Nat"
begin

unbundle bit_operations_syntax

section \<open>Python values\<close>

text \<open>
  The translator works on dynamically typed values: attribute and parameter dictionaries
  hold anything.  The values below are the ones the three functions can tell apart.
  A Python \<open>float\<close> is an IEEE binary64 number; a finite one is represented by the
  rational it denotes.  The sign of a zero is not represented: no result of the three
  functions depends on it.
\<close>

datatype pyerr = TypeError | ValueError | OverflowError | ZeroDivisionError | IndexError

datatype pyfloat = FNum rat | FInf bool | FNaN

datatype pyval =
    PNone
  | PBool bool
  | PInt int
  | PFloat pyfloat
  | PStr string
  | PList "pyval list"

type_synonym pydict = "string \<rightharpoonup> pyval"

text \<open>\<open>d.get(k)\<close> and \<open>d.get(k, default)\<close>.\<close>

definition dict_get :: "pydict \<Rightarrow> string \<Rightarrow> pyval" where
  "dict_get d k = (case d k of None \<Rightarrow> PNone | Some v \<Rightarrow> v)"

definition dict_get_default :: "pydict \<Rightarrow> string \<Rightarrow> pyval \<Rightarrow> pyval" where
  "dict_get_default d k dflt = (case d k of None \<Rightarrow> dflt | Some v \<Rightarrow> v)"

text \<open>Truthiness, and \<open>a or b\<close>.\<close>

fun truthy :: "pyval \<Rightarrow> bool" where
  "truthy PNone = False"
| "truthy (PBool b) = b"
| "truthy (PInt n) = (n \<noteq> 0)"
| "truthy (PFloat f) = (f \<noteq> FNum 0)"
| "truthy (PStr s) = (s \<noteq> [])"
| "truthy (PList xs) = (xs \<noteq> [])"

definition py_or :: "pyval \<Rightarrow> pyval \<Rightarrow> pyval" where
  "py_or a b = (if truthy a then a else b)"

text \<open>Sequencing of computations that may raise.\<close>

fun err_bind :: "pyerr + 'a \<Rightarrow> ('a \<Rightarrow> pyerr + 'b) \<Rightarrow> pyerr + 'b" where
  "err_bind (Inl e) f = Inl e"
| "err_bind (Inr x) f = f x"

section \<open>Double precision arithmetic\<close>

text \<open>Rounding a rational to the nearest integer, ties to the even one.\<close>

definition round_half_even :: "rat \<Rightarrow> int" where
  "round_half_even x =
     (let n = \<lfloor>x\<rfloor>; d = x - of_int n
      in if d < 1 / 2 then n
         else if 1 / 2 < d then n + 1
         else if even n then n else n + 1)"

text \<open>\<open>scale2 e\<close> is the rational \<open>2\<^sup>e\<close> for an integer exponent.\<close>

definition scale2 :: "int \<Rightarrow> rat" where
  "scale2 e = (if 0 \<le> e then 2 ^ nat e else 1 / 2 ^ nat (- e))"

text \<open>For \<open>x > 0\<close>, the exponent \<open>k\<close> with \<open>2\<^sup>k \<le> x < 2\<^sup>k\<^sup>+\<^sup>1\<close>.\<close>

definition floor_log2 :: "rat \<Rightarrow> int" where
  "floor_log2 x = (if 1 \<le> x then bitlen \<lfloor>x\<rfloor> - 1 else - bitlen (\<lceil>1 / x\<rceil> - 1))"

text \<open>
  Rounding to binary64: 53 significant bits, ties to even, gradual underflow below
  \<open>2\<^sup>-\<^sup>1\<^sup>0\<^sup>2\<^sup>2\<close>, overflow to an infinity from \<open>2\<^sup>1\<^sup>0\<^sup>2\<^sup>4\<close> on.
\<close>

definition round_double :: "rat \<Rightarrow> pyfloat" where
  "round_double x =
     (if x = 0 then FNum 0
      else let e = max (floor_log2 \<bar>x\<bar> - 52) (- 1074);
               r = of_int (round_half_even (x / scale2 e)) * scale2 e
           in if 2 ^ 1024 \<le> \<bar>r\<bar> then FInf (0 < x) else FNum r)"

text \<open>Float division and multiplication as CPython performs them.\<close>

fun float_div :: "pyfloat \<Rightarrow> pyfloat \<Rightarrow> pyerr + pyfloat" where
  "float_div a (FNum y) =
     (if y = 0 then Inl ZeroDivisionError
      else case a of
             FNum x \<Rightarrow> Inr (round_double (x / y))
           | FInf s \<Rightarrow> Inr (FInf (s = (0 < y)))
           | FNaN \<Rightarrow> Inr FNaN)"
| "float_div (FNum x) (FInf t) = Inr (FNum 0)"
| "float_div (FInf s) (FInf t) = Inr FNaN"
| "float_div FNaN (FInf t) = Inr FNaN"
| "float_div a FNaN = Inr FNaN"

fun float_mul :: "pyfloat \<Rightarrow> pyfloat \<Rightarrow> pyfloat" where
  "float_mul (FNum x) (FNum y) = round_double (x * y)"
| "float_mul (FNum x) (FInf t) = (if x = 0 then FNaN else FInf (t = (0 < x)))"
| "float_mul (FInf s) (FNum y) = (if y = 0 then FNaN else FInf (s = (0 < y)))"
| "float_mul (FInf s) (FInf t) = FInf (s = t)"
| "float_mul FNaN b = FNaN"
| "float_mul a FNaN = FNaN"

fun float_lt :: "pyfloat \<Rightarrow> pyfloat \<Rightarrow> bool" where
  "float_lt (FNum x) (FNum y) = (x < y)"
| "float_lt (FNum x) (FInf t) = t"
| "float_lt (FInf s) (FNum y) = (\<not> s)"
| "float_lt (FInf s) (FInf t) = (\<not> s \<and> t)"
| "float_lt FNaN b = False"
| "float_lt a FNaN = False"

text \<open>\<open>float(n)\<close> for an int: correctly rounded, OverflowError when out of range.\<close>

definition float_of_int :: "int \<Rightarrow> pyerr + pyfloat" where
  "float_of_int n =
     (case round_double (of_int n) of
        FInf s \<Rightarrow> Inl OverflowError
      | f \<Rightarrow> Inr f)"

text \<open>\<open>int(x)\<close> for a float: truncation toward zero.\<close>

definition trunc_rat :: "rat \<Rightarrow> int" where
  "trunc_rat x = (if 0 \<le> x then \<lfloor>x\<rfloor> else \<lceil>x\<rceil>)"

fun float_int :: "pyfloat \<Rightarrow> pyerr + int" where
  "float_int (FNum x) = Inr (trunc_rat x)"
| "float_int (FInf s) = Inl OverflowError"
| "float_int FNaN = Inl ValueError"

section \<open>Numbers\<close>

text \<open>
  The numeric tower as far as the translator meets it: \<open>bool\<close> is a subclass of
  \<open>int\<close>, and an operation with a float operand converts the other one.
\<close>

datatype pynum = NInt int | NFloat pyfloat

fun as_num :: "pyval \<Rightarrow> pynum option" where
  "as_num (PBool b) = Some (NInt (if b then 1 else 0))"
| "as_num (PInt n) = Some (NInt n)"
| "as_num (PFloat f) = Some (NFloat f)"
| "as_num v = None"

fun num_float :: "pynum \<Rightarrow> pyerr + pyfloat" where
  "num_float (NInt n) = float_of_int n"
| "num_float (NFloat f) = Inr f"

text \<open>
  True division \<open>a / b\<close>.  Between two ints the exact quotient is rounded once and a
  quotient out of range raises OverflowError.
\<close>

fun num_truediv :: "pynum \<Rightarrow> pynum \<Rightarrow> pyerr + pyfloat" where
  "num_truediv (NInt m) (NInt n) =
     (if n = 0 then Inl ZeroDivisionError
      else case round_double (of_int m / of_int n) of
             FInf s \<Rightarrow> Inl OverflowError
           | f \<Rightarrow> Inr f)"
| "num_truediv a b =
     err_bind (num_float a) (\<lambda>x. err_bind (num_float b) (\<lambda>y. float_div x y))"

definition py_truediv :: "pyval \<Rightarrow> pyval \<Rightarrow> pyerr + pyfloat" where
  "py_truediv v w =
     (case (as_num v, as_num w) of
        (Some a, Some b) \<Rightarrow> num_truediv a b
      | _ \<Rightarrow> Inl TypeError)"

fun num_mul :: "pynum \<Rightarrow> pynum \<Rightarrow> pyerr + pynum" where
  "num_mul (NInt m) (NInt n) = Inr (NInt (m * n))"
| "num_mul a b =
     err_bind (num_float a) (\<lambda>x. err_bind (num_float b) (\<lambda>y. Inr (NFloat (float_mul x y))))"

text \<open>Comparison of numbers is exact, also between an int and a float.\<close>

fun num_exact :: "pynum \<Rightarrow> pyfloat" where
  "num_exact (NInt n) = FNum (of_int n)"
| "num_exact (NFloat f) = f"

definition num_lt :: "pynum \<Rightarrow> pynum \<Rightarrow> bool" where
  "num_lt a b = float_lt (num_exact a) (num_exact b)"

text \<open>
  \<open>min(a, b)\<close> keeps \<open>a\<close> unless \<open>b < a\<close>.  Here \<open>a\<close> is a number, so the comparison
  raises TypeError for a \<open>b\<close> that is not one.  The result is returned as the number it is.
\<close>

definition py_min :: "pynum \<Rightarrow> pyval \<Rightarrow> pyerr + pynum" where
  "py_min a v =
     (case as_num v of
        None \<Rightarrow> Inl TypeError
      | Some b \<Rightarrow> Inr (if num_lt b a then b else a))"

text \<open>\<open>round(x)\<close> with one argument, and \<open>int(x)\<close>, on numbers.\<close>

fun num_round :: "pynum \<Rightarrow> pyerr + int" where
  "num_round (NInt n) = Inr n"
| "num_round (NFloat (FNum x)) = Inr (round_half_even x)"
| "num_round (NFloat (FInf s)) = Inl OverflowError"
| "num_round (NFloat FNaN) = Inl ValueError"

fun num_int :: "pynum \<Rightarrow> pyerr + int" where
  "num_int (NInt n) = Inr n"
| "num_int (NFloat f) = float_int f"

text \<open>\<open>feature & supported > 0\<close> for an int \<open>feature\<close>: \<open>&\<close> binds tighter than the comparison.\<close>

definition feature_supported :: "int \<Rightarrow> pyval \<Rightarrow> pyerr + bool" where
  "feature_supported feature supported =
     (case as_num supported of
        Some (NInt s) \<Rightarrow> Inr (0 < feature AND s)
      | _ \<Rightarrow> Inl TypeError)"

section \<open>Strings and dictionary literals\<close>

text \<open>\<open>s.split(sep)\<close> for a one-character separator.\<close>

fun split_str :: "char \<Rightarrow> string \<Rightarrow> string list" where
  "split_str sep [] = [[]]"
| "split_str sep (ch # cs) =
     (if ch = sep then [] # split_str sep cs
      else case split_str sep cs of
             [] \<Rightarrow> [[ch]]
           | w # ws \<Rightarrow> (ch # w) # ws)"

text \<open>
  A dictionary literal keeps its keys in the order written; a key written twice keeps
  its first place and its last value.
\<close>

fun dict_insert :: "'k \<Rightarrow> 'v \<Rightarrow> ('k \<times> 'v) list \<Rightarrow> ('k \<times> 'v) list" where
  "dict_insert k v [] = [(k, v)]"
| "dict_insert k v ((k', v') # kvs) =
     (if k' = k then (k, v) # kvs else (k', v') # dict_insert k v kvs)"

definition dict_literal :: "('k \<times> 'v) list \<Rightarrow> ('k \<times> 'v) list" where
  "dict_literal kvs = foldl (\<lambda>d (k, v). dict_insert k v d) [] kvs"

section \<open>Imported constants\<close>

text \<open>
  The module takes its string and flag constants from \<open>homeassistant.const\<close>, from the
  component modules and from the package's own \<open>const\<close> module.  Their values are
  not part of the translator; they are parameters of everything below.
\<close>

record const_env =
  ATTR_SUPPORTED_FEATURES :: string
  ATTR_ENTITY_ID :: string
  CONF_FRIENDLY_NAME :: string
  STATE_OFF :: string
  SERVICE_TURN_OFF :: string
  SERVICE_TURN_ON :: string
  ATTR_GOOGLE_ASSISTANT_NAME :: string
  COMMAND_BRIGHTNESS :: string
  COMMAND_ONOFF :: string
  PREFIX_TRAITS :: string
  PREFIX_TYPES :: string
  CONF_ALIASES :: string
  group_DOMAIN :: string
  switch_DOMAIN :: string
  fan_DOMAIN :: string
  light_DOMAIN :: string
  light_SUPPORT_BRIGHTNESS :: int
  light_SUPPORT_RGB_COLOR :: int
  light_SUPPORT_COLOR_TEMP :: int
  light_ATTR_BRIGHTNESS :: string
  cover_DOMAIN :: string
  cover_SUPPORT_SET_POSITION :: int
  cover_SERVICE_SET_COVER_POSITION :: string
  cover_SERVICE_OPEN_COVER :: string
  cover_SERVICE_CLOSE_COVER :: string
  media_player_DOMAIN :: string
  media_player_SUPPORT_VOLUME_SET :: int
  media_player_ATTR_MEDIA_VOLUME_LEVEL :: string
  media_player_SERVICE_VOLUME_SET :: string

text \<open>The values Home Assistant gives these constants, for concrete runs.\<close>

definition ha_consts :: const_env where
  "ha_consts = \<lparr>
     ATTR_SUPPORTED_FEATURES = ''supported_features'',
     ATTR_ENTITY_ID = ''entity_id'',
     CONF_FRIENDLY_NAME = ''friendly_name'',
     STATE_OFF = ''off'',
     SERVICE_TURN_OFF = ''turn_off'',
     SERVICE_TURN_ON = ''turn_on'',
     ATTR_GOOGLE_ASSISTANT_NAME = ''google_assistant_name'',
     COMMAND_BRIGHTNESS = ''action.devices.commands.BrightnessAbsolute'',
     COMMAND_ONOFF = ''action.devices.commands.OnOff'',
     PREFIX_TRAITS = ''action.devices.traits.'',
     PREFIX_TYPES = ''action.devices.types.'',
     CONF_ALIASES = ''aliases'',
     group_DOMAIN = ''group'',
     switch_DOMAIN = ''switch'',
     fan_DOMAIN = ''fan'',
     light_DOMAIN = ''light'',
     light_SUPPORT_BRIGHTNESS = 1,
     light_SUPPORT_RGB_COLOR = 16,
     light_SUPPORT_COLOR_TEMP = 2,
     light_ATTR_BRIGHTNESS = ''brightness'',
     cover_DOMAIN = ''cover'',
     cover_SUPPORT_SET_POSITION = 4,
     cover_SERVICE_SET_COVER_POSITION = ''set_cover_position'',
     cover_SERVICE_OPEN_COVER = ''open_cover'',
     cover_SERVICE_CLOSE_COVER = ''close_cover'',
     media_player_DOMAIN = ''media_player'',
     media_player_SUPPORT_VOLUME_SET = 4,
     media_player_ATTR_MEDIA_VOLUME_LEVEL = ''volume_level'',
     media_player_SERVICE_VOLUME_SET = ''volume_set'' \<rparr>"

section \<open>The capability map\<close>

text \<open>
  \<open>MAPPING_COMPONENT\<close>: per domain the device type, the base trait and the optional
  features, a dictionary from feature flag to trait or \<open>None\<close>.
\<close>

type_synonym class_data = "string \<times> string \<times> (int \<times> string) list option"

definition MAPPING_COMPONENT :: "const_env \<Rightarrow> string \<rightharpoonup> class_data" where
  "MAPPING_COMPONENT c =
     Map.empty
       (group_DOMAIN c \<mapsto> (''SCENE'', ''ActivateScene'', None),
        switch_DOMAIN c \<mapsto> (''SWITCH'', ''OnOff'', None),
        fan_DOMAIN c \<mapsto> (''SWITCH'', ''OnOff'', None),
        light_DOMAIN c \<mapsto>
          (''LIGHT'', ''OnOff'',
           Some (dict_literal
                   [(light_SUPPORT_BRIGHTNESS c, ''Brightness''),
                    (light_SUPPORT_RGB_COLOR c, ''ColorSpectrum''),
                    (light_SUPPORT_COLOR_TEMP c, ''ColorTemperature'')])),
        cover_DOMAIN c \<mapsto>
          (''LIGHT'', ''OnOff'',
           Some (dict_literal [(cover_SUPPORT_SET_POSITION c, ''Brightness'')])),
        media_player_DOMAIN c \<mapsto>
          (''LIGHT'', ''OnOff'',
           Some (dict_literal [(media_player_SUPPORT_VOLUME_SET c, ''Brightness'')])))"

section \<open>Entities and results\<close>

record entity =
  entity_id :: string
  domain :: string
  state :: string
  attributes :: pydict

text \<open>
  The device dictionary has fixed keys; \<open>nicknames\<close> is the one key of the inner
  \<open>name\<close> dictionary that may be missing.
\<close>

record device_name =
  name :: pyval
  nicknames :: "pyval list option"

record device =
  device_id :: string
  device_name :: device_name
  traits :: "string list"
  willReportState :: bool
  device_type :: string

record query_result =
  on :: bool
  online :: bool
  brightness :: int

section \<open>\<open>entity_to_device\<close>\<close>

text \<open>
  The loop over the optional features appends a trait for every feature whose flag meets
  the supported bitmask; the \<open>&\<close> raises TypeError on a bitmask that is no int.
\<close>

fun add_traits :: "const_env \<Rightarrow> pyval \<Rightarrow> (int \<times> string) list \<Rightarrow> string list \<Rightarrow> pyerr + string list" where
  "add_traits c supported [] ts = Inr ts"
| "add_traits c supported ((feature, trait) # rest) ts =
     err_bind (feature_supported feature supported)
       (\<lambda>b. add_traits c supported rest (if b then ts @ [PREFIX_TRAITS c @ trait] else ts))"

text \<open>
  The result is paired with the warnings logged on the way.  \<open>Inr None\<close> is the
  \<open>return None\<close> of an unmapped domain.
\<close>

definition entity_to_device :: "const_env \<Rightarrow> entity \<Rightarrow> (pyerr + device option) \<times> string list" where
  "entity_to_device c e =
     (case MAPPING_COMPONENT c (domain e) of
        None \<Rightarrow> (Inr None, [])
      | Some (ty, base, optional) \<Rightarrow>
          let nm = py_or (dict_get (attributes e) (ATTR_GOOGLE_ASSISTANT_NAME c))
                         (dict_get (attributes e) (CONF_FRIENDLY_NAME c));
              aliases = dict_get (attributes e) (CONF_ALIASES c);
              (nick, warnings) =
                 (case aliases of
                    PList xs \<Rightarrow> (Some xs, [])
                  | _ \<Rightarrow> (None, [CONF_ALIASES c @ '' must be a list'']));
              ts0 = [PREFIX_TRAITS c @ base];
              ts = (case optional of
                      None \<Rightarrow> Inr ts0
                    | Some fs \<Rightarrow>
                        if fs = [] then Inr ts0
                        else add_traits c
                               (dict_get_default (attributes e) (ATTR_SUPPORTED_FEATURES c) (PInt 0))
                               fs ts0)
          in (err_bind ts
                (\<lambda>ts. Inr (Some \<lparr> device_id = entity_id e,
                                   device_name = \<lparr> name = nm, nicknames = nick \<rparr>,
                                   traits = ts,
                                   willReportState = False,
                                   device_type = PREFIX_TYPES c @ ty \<rparr>)),
              warnings))"

section \<open>\<open>query_device\<close>\<close>

definition query_device :: "const_env \<Rightarrow> entity \<Rightarrow> pyerr + query_result" where
  "query_device c e =
     (let final_state = (state e \<noteq> STATE_OFF c);
          dflt = PInt (if final_state then 255 else 0);
          attr_brightness = dict_get_default (attributes e) (light_ATTR_BRIGHTNESS c) dflt;
          resolved =
            (if domain e = media_player_DOMAIN c
             then let level = dict_get_default (attributes e)
                                (media_player_ATTR_MEDIA_VOLUME_LEVEL c)
                                (PFloat (FNum (if final_state then 1 else 0)))
                  in err_bind (py_min (NFloat (FNum 1)) level)
                       (\<lambda>m. err_bind (num_mul m (NInt 255))
                          (\<lambda>p. err_bind (num_round p) (\<lambda>r. Inr (PInt r))))
             else Inr attr_brightness)
      in err_bind resolved
           (\<lambda>fb. let final_brightness = (if fb = PNone then dflt else fb)
                 in err_bind (py_truediv final_brightness (PInt 255))
                      (\<lambda>q. err_bind (num_mul (NInt 100) (NFloat q))
                         (\<lambda>pct. err_bind (num_int pct)
                            (\<lambda>n. Inr \<lparr> on = final_state, online = True, brightness = n \<rparr>)))))"

section \<open>\<open>determine_service\<close>\<close>

text \<open>\<open>entity_id.split('.')[0]\<close>; indexing an empty list would raise IndexError.\<close>

definition split_first :: "string \<Rightarrow> string option" where
  "split_first s = (case split_str CHR ''.'' s of [] \<Rightarrow> None | w # ws \<Rightarrow> Some w)"

definition determine_service :: "const_env \<Rightarrow> string \<Rightarrow> string \<Rightarrow> pydict \<Rightarrow> pyerr + string \<times> pydict" where
  "determine_service c eid command params =
     (case split_first eid of
        None \<Rightarrow> Inl IndexError
      | Some dmn \<Rightarrow>
          let service_data = [ATTR_ENTITY_ID c \<mapsto> PStr eid]
          in if dmn = ''media_player'' \<and> command = COMMAND_BRIGHTNESS c
             then err_bind (py_truediv (dict_get_default params ''brightness'' (PInt 0)) (PInt 100))
                    (\<lambda>v. Inr (media_player_SERVICE_VOLUME_SET c,
                               service_data(''volume'' \<mapsto> PFloat v)))
             else if dmn = ''cover'' \<and> command = COMMAND_BRIGHTNESS c
             then Inr (cover_SERVICE_SET_COVER_POSITION c,
                       service_data(''position'' \<mapsto> dict_get_default params ''brightness'' (PInt 0)))
             else if dmn = ''cover'' \<and> command = COMMAND_ONOFF c
             then (if dict_get params ''on'' = PBool True
                   then Inr (cover_SERVICE_OPEN_COVER c, service_data)
                   else Inr (cover_SERVICE_CLOSE_COVER c, service_data))
             else if command = COMMAND_BRIGHTNESS c
             then err_bind (py_truediv (dict_get params ''brightness'') (PInt 100))
                    (\<lambda>q. err_bind (num_mul (NFloat q) (NInt 255))
                       (\<lambda>p. err_bind (num_int p)
                          (\<lambda>n. Inr (SERVICE_TURN_ON c,
                                     service_data(''brightness'' \<mapsto> PInt n)))))
             else if COMMAND_ONOFF c = command \<and> dict_get params ''on'' = PBool True
             then Inr (SERVICE_TURN_ON c, service_data)
             else Inr (SERVICE_TURN_OFF c, service_data))"

text \<open>The percent scaling at the end of \<open>query_device\<close>.\<close>

abbreviation scaled :: "bool \<Rightarrow> pyval \<Rightarrow> pyerr + query_result" where
  "scaled st fb \<equiv>
     err_bind (py_truediv fb (PInt 255))
       (\<lambda>q. err_bind (num_mul (NInt 100) (NFloat q))
          (\<lambda>pct. err_bind (num_int pct)
             (\<lambda>n. Inr \<lparr> on = st, online = True, brightness = n \<rparr>)))"

section \<open>Evaluating double precision arithmetic\<close>

lemma bitlen_numeral_simps:
  "bitlen 1 = 1"
  "bitlen (numeral Num.One) = 1"
  "bitlen (numeral (Num.Bit0 n)) = bitlen (numeral n) + 1"
  "bitlen (numeral (Num.Bit1 n)) = bitlen (numeral n) + 1"
  "bitlen (- numeral n) = 0"
proof -
  show "bitlen 1 = 1" by (subst compute_bitlen) simp
  then show "bitlen (numeral Num.One) = 1" by simp
  show "bitlen (numeral (Num.Bit0 n)) = bitlen (numeral n) + 1"
    by (subst compute_bitlen) simp
  show "bitlen (numeral (Num.Bit1 n)) = bitlen (numeral n) + 1"
    by (subst compute_bitlen) simp
  show "bitlen (- numeral n) = 0"
    by (subst compute_bitlen) simp
qed

lemma rat_floor_numeral_simps:
  "\<lfloor>(numeral a :: rat) / numeral b\<rfloor> = numeral a div numeral b"
  "\<lfloor>- ((numeral a :: rat) / numeral b)\<rfloor> = - numeral a div numeral b"
  "\<lfloor>(1 :: rat) / numeral b\<rfloor> = 1 div numeral b"
  "\<lceil>(numeral a :: rat) / numeral b\<rceil> = - (- numeral a div numeral b)"
  "\<lceil>- ((numeral a :: rat) / numeral b)\<rceil> = - (numeral a div numeral b)"
  "\<lceil>(1 :: rat) / numeral b\<rceil> = - (- 1 div numeral b)"
proof -
  show "\<lfloor>(numeral a :: rat) / numeral b\<rfloor> = numeral a div numeral b"
    using floor_divide_of_int_eq [of "numeral a" "numeral b", where ?'a = rat] by simp
  show "\<lfloor>- ((numeral a :: rat) / numeral b)\<rfloor> = - numeral a div numeral b"
    using floor_divide_of_int_eq [of "- numeral a" "numeral b", where ?'a = rat] by simp
  show "\<lfloor>(1 :: rat) / numeral b\<rfloor> = 1 div numeral b"
    using floor_divide_of_int_eq [of 1 "numeral b", where ?'a = rat] by simp
  show "\<lceil>(numeral a :: rat) / numeral b\<rceil> = - (- numeral a div numeral b)"
    using floor_divide_of_int_eq [of "- numeral a" "numeral b", where ?'a = rat]
    by (simp add: ceiling_def)
  show "\<lceil>- ((numeral a :: rat) / numeral b)\<rceil> = - (numeral a div numeral b)"
    using floor_divide_of_int_eq [of "numeral a" "numeral b", where ?'a = rat]
    by (simp add: ceiling_def)
  show "\<lceil>(1 :: rat) / numeral b\<rceil> = - (- 1 div numeral b)"
    using floor_divide_of_int_eq [of "- 1" "numeral b", where ?'a = rat]
    by (simp add: ceiling_def)
qed

lemmas double_eval =
  py_truediv_def float_of_int_def round_double_def floor_log2_def scale2_def
  round_half_even_def trunc_rat_def bitlen_numeral_simps rat_floor_numeral_simps

lemma float_of_int_100: "float_of_int 100 = Inr (FNum 100)"
  by (simp add: double_eval)

lemma float_of_int_255: "float_of_int 255 = Inr (FNum 255)"
  by (simp add: double_eval)

lemmas pipeline_eval =
  float_of_int_100 float_of_int_255 py_truediv_def round_double_def floor_log2_def scale2_def
  round_half_even_def trunc_rat_def bitlen_numeral_simps rat_floor_numeral_simps

lemma percent_0_1:
  "list_all (\<lambda>n. err_bind (py_truediv (PInt n) (PInt 255))
       (\<lambda>q. err_bind (num_mul (NInt 100) (NFloat q)) (\<lambda>p. err_bind (num_int p) f)) = f ((100 * n) div 255)) [0, 1]"
  by (simp add: pipeline_eval)

lemma percent_2_31:
  "list_all (\<lambda>n. err_bind (py_truediv (PInt n) (PInt 255))
       (\<lambda>q. err_bind (num_mul (NInt 100) (NFloat q)) (\<lambda>p. err_bind (num_int p) f)) = f ((100 * n) div 255)) [2..31]"
  by (simp add: pipeline_eval upto_rec_numeral)

lemma percent_32_63:
  "list_all (\<lambda>n. err_bind (py_truediv (PInt n) (PInt 255))
       (\<lambda>q. err_bind (num_mul (NInt 100) (NFloat q)) (\<lambda>p. err_bind (num_int p) f)) = f ((100 * n) div 255)) [32..63]"
  by (simp add: pipeline_eval upto_rec_numeral)

lemma percent_64_95:
  "list_all (\<lambda>n. err_bind (py_truediv (PInt n) (PInt 255))
       (\<lambda>q. err_bind (num_mul (NInt 100) (NFloat q)) (\<lambda>p. err_bind (num_int p) f)) = f ((100 * n) div 255)) [64..95]"
  by (simp add: pipeline_eval upto_rec_numeral)

lemma percent_96_127:
  "list_all (\<lambda>n. err_bind (py_truediv (PInt n) (PInt 255))
       (\<lambda>q. err_bind (num_mul (NInt 100) (NFloat q)) (\<lambda>p. err_bind (num_int p) f)) = f ((100 * n) div 255)) [96..127]"
  by (simp add: pipeline_eval upto_rec_numeral)

lemma percent_128_159:
  "list_all (\<lambda>n. err_bind (py_truediv (PInt n) (PInt 255))
       (\<lambda>q. err_bind (num_mul (NInt 100) (NFloat q)) (\<lambda>p. err_bind (num_int p) f)) = f ((100 * n) div 255)) [128..159]"
  by (simp add: pipeline_eval upto_rec_numeral)

lemma percent_160_191:
  "list_all (\<lambda>n. err_bind (py_truediv (PInt n) (PInt 255))
       (\<lambda>q. err_bind (num_mul (NInt 100) (NFloat q)) (\<lambda>p. err_bind (num_int p) f)) = f ((100 * n) div 255)) [160..191]"
  by (simp add: pipeline_eval upto_rec_numeral)

lemma percent_192_223:
  "list_all (\<lambda>n. err_bind (py_truediv (PInt n) (PInt 255))
       (\<lambda>q. err_bind (num_mul (NInt 100) (NFloat q)) (\<lambda>p. err_bind (num_int p) f)) = f ((100 * n) div 255)) [192..223]"
  by (simp add: pipeline_eval upto_rec_numeral)

lemma percent_224_255:
  "list_all (\<lambda>n. err_bind (py_truediv (PInt n) (PInt 255))
       (\<lambda>q. err_bind (num_mul (NInt 100) (NFloat q)) (\<lambda>p. err_bind (num_int p) f)) = f ((100 * n) div 255)) [224..255]"
  by (simp add: pipeline_eval upto_rec_numeral)

lemma byte_cases:
  fixes n :: int
  assumes c0: "list_all P [0, 1]"
    and c1: "list_all P [2..31]"
    and c2: "list_all P [32..63]"
    and c3: "list_all P [64..95]"
    and c4: "list_all P [96..127]"
    and c5: "list_all P [128..159]"
    and c6: "list_all P [160..191]"
    and c7: "list_all P [192..223]"
    and c8: "list_all P [224..255]"
    and lo: "0 \<le> n" and hi: "n \<le> 255"
  shows "P n"
proof -
  consider "n = 0 \<or> n = 1" | "2 \<le> n \<and> n \<le> 31" | "32 \<le> n \<and> n \<le> 63" | "64 \<le> n \<and> n \<le> 95" | "96 \<le> n \<and> n \<le> 127" | "128 \<le> n \<and> n \<le> 159" | "160 \<le> n \<and> n \<le> 191" | "192 \<le> n \<and> n \<le> 223" | "224 \<le> n \<and> n \<le> 255" 
    using lo hi by linarith
  then show ?thesis
  proof cases
    case 1
    then show ?thesis using c0 by auto
  next
    case 2
    then have "n \<in> set [2..31]" unfolding set_upto atLeastAtMost_iff .
    with c1 show ?thesis unfolding list_all_iff by blast
  next
    case 3
    then have "n \<in> set [32..63]" unfolding set_upto atLeastAtMost_iff .
    with c2 show ?thesis unfolding list_all_iff by blast
  next
    case 4
    then have "n \<in> set [64..95]" unfolding set_upto atLeastAtMost_iff .
    with c3 show ?thesis unfolding list_all_iff by blast
  next
    case 5
    then have "n \<in> set [96..127]" unfolding set_upto atLeastAtMost_iff .
    with c4 show ?thesis unfolding list_all_iff by blast
  next
    case 6
    then have "n \<in> set [128..159]" unfolding set_upto atLeastAtMost_iff .
    with c5 show ?thesis unfolding list_all_iff by blast
  next
    case 7
    then have "n \<in> set [160..191]" unfolding set_upto atLeastAtMost_iff .
    with c6 show ?thesis unfolding list_all_iff by blast
  next
    case 8
    then have "n \<in> set [192..223]" unfolding set_upto atLeastAtMost_iff .
    with c7 show ?thesis unfolding list_all_iff by blast
  next
    case 9
    then have "n \<in> set [224..255]" unfolding set_upto atLeastAtMost_iff .
    with c8 show ?thesis unfolding list_all_iff by blast
  qed
qed

lemma percent_of_byte:
  assumes "0 \<le> n" "n \<le> 255"
  shows "err_bind (py_truediv (PInt n) (PInt 255))
       (\<lambda>q. err_bind (num_mul (NInt 100) (NFloat q)) (\<lambda>p. err_bind (num_int p) f)) = f ((100 * n) div 255)"
  using percent_0_1 percent_2_31 percent_32_63 percent_64_95 percent_96_127 percent_128_159 percent_160_191 percent_192_223 percent_224_255 assms
  by (rule byte_cases)

lemma level_0_1:
  "list_all (\<lambda>n. err_bind (py_truediv (PInt n) (PInt 100))
       (\<lambda>q. err_bind (num_mul (NFloat q) (NInt 255)) (\<lambda>p. err_bind (num_int p) f)) = f ((255 * n) div 100)) [0, 1]"
  by (simp add: pipeline_eval)

lemma level_2_25:
  "list_all (\<lambda>n. err_bind (py_truediv (PInt n) (PInt 100))
       (\<lambda>q. err_bind (num_mul (NFloat q) (NInt 255)) (\<lambda>p. err_bind (num_int p) f)) = f ((255 * n) div 100)) [2..25]"
  by (simp add: pipeline_eval upto_rec_numeral)

lemma level_26_50:
  "list_all (\<lambda>n. err_bind (py_truediv (PInt n) (PInt 100))
       (\<lambda>q. err_bind (num_mul (NFloat q) (NInt 255)) (\<lambda>p. err_bind (num_int p) f)) = f ((255 * n) div 100)) [26..50]"
  by (simp add: pipeline_eval upto_rec_numeral)

lemma level_51_75:
  "list_all (\<lambda>n. err_bind (py_truediv (PInt n) (PInt 100))
       (\<lambda>q. err_bind (num_mul (NFloat q) (NInt 255)) (\<lambda>p. err_bind (num_int p) f)) = f ((255 * n) div 100)) [51..75]"
  by (simp add: pipeline_eval upto_rec_numeral)

lemma level_76_100:
  "list_all (\<lambda>n. err_bind (py_truediv (PInt n) (PInt 100))
       (\<lambda>q. err_bind (num_mul (NFloat q) (NInt 255)) (\<lambda>p. err_bind (num_int p) f)) = f ((255 * n) div 100)) [76..100]"
  by (simp add: pipeline_eval upto_rec_numeral)

lemma percent_cases:
  fixes n :: int
  assumes c0: "list_all P [0, 1]"
    and c1: "list_all P [2..25]"
    and c2: "list_all P [26..50]"
    and c3: "list_all P [51..75]"
    and c4: "list_all P [76..100]"
    and lo: "0 \<le> n" and hi: "n \<le> 100"
  shows "P n"
proof -
  consider "n = 0 \<or> n = 1" | "2 \<le> n \<and> n \<le> 25" | "26 \<le> n \<and> n \<le> 50" | "51 \<le> n \<and> n \<le> 75" | "76 \<le> n \<and> n \<le> 100" 
    using lo hi by linarith
  then show ?thesis
  proof cases
    case 1
    then show ?thesis using c0 by auto
  next
    case 2
    then have "n \<in> set [2..25]" unfolding set_upto atLeastAtMost_iff .
    with c1 show ?thesis unfolding list_all_iff by blast
  next
    case 3
    then have "n \<in> set [26..50]" unfolding set_upto atLeastAtMost_iff .
    with c2 show ?thesis unfolding list_all_iff by blast
  next
    case 4
    then have "n \<in> set [51..75]" unfolding set_upto atLeastAtMost_iff .
    with c3 show ?thesis unfolding list_all_iff by blast
  next
    case 5
    then have "n \<in> set [76..100]" unfolding set_upto atLeastAtMost_iff .
    with c4 show ?thesis unfolding list_all_iff by blast
  qed
qed

lemma level_of_percent:
  assumes "0 \<le> n" "n \<le> 100"
  shows "err_bind (py_truediv (PInt n) (PInt 100))
       (\<lambda>q. err_bind (num_mul (NFloat q) (NInt 255)) (\<lambda>p. err_bind (num_int p) f)) = f ((255 * n) div 100)"
  using level_0_1 level_2_25 level_26_50 level_51_75 level_76_100 assms
  by (rule percent_cases)

section \<open>The domain of an entity id\<close>

lemma split_str_hd:
  "\<exists>ws. split_str sep s = takeWhile (\<lambda>ch. ch \<noteq> sep) s # ws"
proof (induction s)
  case Nil
  show ?case by simp
next
  case (Cons ch cs)
  then obtain ws where "split_str sep cs = takeWhile (\<lambda>ch. ch \<noteq> sep) cs # ws" by blast
  then show ?case by simp
qed

lemma split_first_takeWhile:
  "split_first s = Some (takeWhile (\<lambda>ch. ch \<noteq> CHR ''.'') s)"
proof -
  obtain ws where "split_str CHR ''.'' s = takeWhile (\<lambda>ch. ch \<noteq> CHR ''.'') s # ws"
    using split_str_hd by blast
  then show ?thesis by (simp add: split_first_def)
qed

section \<open>Device descriptors\<close>

lemma feature_supported_int:
  "feature_supported f (PInt m) = Inr (0 < f AND m)"
  by (simp add: feature_supported_def)

lemma add_traits_int:
  "add_traits c (PInt m) fs ts =
     Inr (ts @ map (\<lambda>(f, t). PREFIX_TRAITS c @ t) (filter (\<lambda>(f, t). 0 < f AND m) fs))"
  by (induction fs arbitrary: ts) (auto simp add: feature_supported_int)

lemma add_traits_num:
  assumes "as_num v = Some (NInt m)"
  shows "add_traits c v fs ts =
     Inr (ts @ map (\<lambda>(f, t). PREFIX_TRAITS c @ t) (filter (\<lambda>(f, t). 0 < f AND m) fs))"
  using assms
  by (induction fs arbitrary: ts) (auto simp add: feature_supported_def)

lemma and_subset_pos:
  fixes f m1 m2 :: int
  assumes "0 < f AND m1" "m1 AND m2 = m1" "0 \<le> m2"
  shows "0 < f AND m2"
proof -
  have "f AND m1 = (f AND m2) AND m1"
    using assms(2) by (metis and.assoc and.commute)
  with assms(1) have "f AND m2 \<noteq> 0" by auto
  moreover have "0 \<le> f AND m2" using assms(3) by simp
  ultimately show ?thesis by linarith
qed

lemma entity_to_device_unmapped:
  "fst (entity_to_device c e) = Inr None \<longleftrightarrow> domain e \<notin> dom (MAPPING_COMPONENT c)"
proof (cases "MAPPING_COMPONENT c (domain e)")
  case None
  then show ?thesis by (simp add: entity_to_device_def domIff)
next
  case (Some cd)
  obtain ty base optional where cd: "cd = (ty, base, optional)" by (cases cd)
  show ?thesis
  proof (cases "case optional of None \<Rightarrow> Inr [PREFIX_TRAITS c @ base]
                  | Some fs \<Rightarrow> if fs = [] then Inr [PREFIX_TRAITS c @ base]
                      else add_traits c (dict_get_default (attributes e) (ATTR_SUPPORTED_FEATURES c) (PInt 0)) fs [PREFIX_TRAITS c @ base]")
    case (Inl err)
    then show ?thesis using Some cd
      by (simp add: entity_to_device_def domIff Let_def split: prod.splits)
  next
    case (Inr ts)
    then show ?thesis using Some cd
      by (simp add: entity_to_device_def domIff Let_def split: prod.splits)
  qed
qed

lemma entity_to_device_mapped:
  assumes cd: "MAPPING_COMPONENT c (domain e) = Some (ty, base, optional)"
    and num: "as_num (dict_get_default (attributes e) (ATTR_SUPPORTED_FEATURES c) (PInt 0))
                = Some (NInt m)"
  shows "\<exists>d. fst (entity_to_device c e) = Inr (Some d)
           \<and> device_id d = entity_id e
           \<and> device_type d = PREFIX_TYPES c @ ty
           \<and> willReportState d = False
           \<and> traits d = (PREFIX_TRAITS c @ base) #
                 map (\<lambda>(f, t). PREFIX_TRAITS c @ t)
                   (filter (\<lambda>(f, t). 0 < f AND m) (case optional of None \<Rightarrow> [] | Some fs \<Rightarrow> fs))"
  using cd
  by (cases optional)
     (auto simp add: entity_to_device_def Let_def add_traits_num [OF num] split: prod.splits)


lemma typed_bitmask:
  assumes "\<forall>v. attributes e (ATTR_SUPPORTED_FEATURES c) = Some v \<longrightarrow> (\<exists>m. as_num v = Some (NInt m))"
  shows "\<exists>m. as_num (dict_get_default (attributes e) (ATTR_SUPPORTED_FEATURES c) (PInt 0))
               = Some (NInt m)"
  using assms by (cases "attributes e (ATTR_SUPPORTED_FEATURES c)") (auto simp add: dict_get_default_def)

lemma entity_to_device_no_optional:
  assumes cd: "MAPPING_COMPONENT c (domain e) = Some (ty, base, None)"
  shows "\<exists>d. fst (entity_to_device c e) = Inr (Some d)
           \<and> device_type d = PREFIX_TYPES c @ ty
           \<and> traits d = [PREFIX_TRAITS c @ base]"
  using cd by (auto simp add: entity_to_device_def Let_def split: prod.splits)

lemma add_traits_not_int:
  assumes "fs \<noteq> []" and "\<forall>m. as_num v \<noteq> Some (NInt m)"
  shows "add_traits c v fs ts = Inl TypeError"
proof (cases fs)
  case Nil
  with assms(1) show ?thesis by simp
next
  case (Cons p rest)
  obtain f t where p: "p = (f, t)" by (cases p)
  have "feature_supported f v = Inl TypeError"
    using assms(2) by (auto simp add: feature_supported_def split: option.splits pynum.splits)
  with Cons p show ?thesis by simp
qed

lemma entity_to_device_bad_bitmask:
  assumes cd: "MAPPING_COMPONENT c (domain e) = Some (ty, base, Some fs)"
    and fs: "fs \<noteq> []"
    and v: "attributes e (ATTR_SUPPORTED_FEATURES c) = Some v"
    and bad: "\<forall>m. as_num v \<noteq> Some (NInt m)"
  shows "fst (entity_to_device c e) = Inl TypeError"
proof -
  have "dict_get_default (attributes e) (ATTR_SUPPORTED_FEATURES c) (PInt 0) = v"
    using v by (simp add: dict_get_default_def)
  then show ?thesis
    using cd fs add_traits_not_int [OF fs bad, of c]
    by (simp add: entity_to_device_def Let_def split: prod.splits)
qed

text \<open>
  A light is a key of the capability map, but with a supported-features attribute that
  is the float 1.0 the \<open>&\<close> raises TypeError and no descriptor is returned.
\<close>

theorem float_bitmask_counterexample:
  "''light'' \<in> dom (MAPPING_COMPONENT ha_consts)
   \<and> fst (entity_to_device ha_consts
            \<lparr> entity_id = ''light.kitchen'', domain = ''light'', state = ''on'',
              attributes = [''supported_features'' \<mapsto> PFloat (FNum 1)] \<rparr>)
       = Inl TypeError"
  by (simp add: entity_to_device_def MAPPING_COMPONENT_def ha_consts_def dict_literal_def
        dict_get_default_def dict_get_def py_or_def feature_supported_def domIff)

text \<open>
  C4 (amended).  \<open>entity_to_device\<close> returns \<open>None\<close> exactly for the domains that are no
  key of the capability map.  For a domain that is a key it returns a device whose type
  is the type prefix followed by the mapped device type and whose traits start with the
  trait prefix followed by the mapped base trait, when the domain has no optional
  features or the supported-features attribute is absent or an int.  When the domain has
  optional features and the attribute holds anything else, the call raises TypeError.
\<close>

theorem entity_to_device_capability_map:
  "(fst (entity_to_device c e) = Inr None \<longleftrightarrow> domain e \<notin> dom (MAPPING_COMPONENT c))
   \<and> (\<forall>ty base optional.
         MAPPING_COMPONENT c (domain e) = Some (ty, base, optional)
         \<and> (optional = None
              \<or> (\<forall>v. attributes e (ATTR_SUPPORTED_FEATURES c) = Some v
                       \<longrightarrow> (\<exists>m. as_num v = Some (NInt m))))
         \<longrightarrow> (\<exists>d rest. fst (entity_to_device c e) = Inr (Some d)
                 \<and> device_type d = PREFIX_TYPES c @ ty
                 \<and> traits d = (PREFIX_TRAITS c @ base) # rest))
   \<and> (\<forall>ty base fs v.
         MAPPING_COMPONENT c (domain e) = Some (ty, base, Some fs) \<and> fs \<noteq> []
         \<and> attributes e (ATTR_SUPPORTED_FEATURES c) = Some v
         \<and> (\<forall>m. as_num v \<noteq> Some (NInt m))
         \<longrightarrow> fst (entity_to_device c e) = Inl TypeError)"
proof (intro conjI allI impI)
  show "fst (entity_to_device c e) = Inr None \<longleftrightarrow> domain e \<notin> dom (MAPPING_COMPONENT c)"
    by (rule entity_to_device_unmapped)
next
  fix ty base fs v
  assume "MAPPING_COMPONENT c (domain e) = Some (ty, base, Some fs) \<and> fs \<noteq> []
         \<and> attributes e (ATTR_SUPPORTED_FEATURES c) = Some v
         \<and> (\<forall>m. as_num v \<noteq> Some (NInt m))"
  then show "fst (entity_to_device c e) = Inl TypeError"
    using entity_to_device_bad_bitmask [of c e ty base fs v] by blast
next
  fix ty base optional
  assume h: "MAPPING_COMPONENT c (domain e) = Some (ty, base, optional)
         \<and> (optional = None
              \<or> (\<forall>v. attributes e (ATTR_SUPPORTED_FEATURES c) = Some v
                       \<longrightarrow> (\<exists>m. as_num v = Some (NInt m))))"
  then have cd: "MAPPING_COMPONENT c (domain e) = Some (ty, base, optional)" by blast
  show "\<exists>d rest. fst (entity_to_device c e) = Inr (Some d)
                 \<and> device_type d = PREFIX_TYPES c @ ty
                 \<and> traits d = (PREFIX_TRAITS c @ base) # rest"
  proof (cases "optional = None")
    case True
    with cd entity_to_device_no_optional [of c e ty base] show ?thesis by auto
  next
    case False
    with h obtain m where
      "as_num (dict_get_default (attributes e) (ATTR_SUPPORTED_FEATURES c) (PInt 0)) = Some (NInt m)"
      using typed_bitmask [of e c] by blast
    from entity_to_device_mapped [OF cd this] show ?thesis by blast
  qed
qed

theorem entity_to_device_capability_map_witness:
  "MAPPING_COMPONENT ha_consts ''light'' =
         Some (''LIGHT'', ''OnOff'',
               Some [(1, ''Brightness''), (16, ''ColorSpectrum''), (2, ''ColorTemperature'')])
   \<and> (\<exists>d rest. fst (entity_to_device ha_consts
          \<lparr> entity_id = ''light.kitchen'', domain = ''light'', state = ''on'',
            attributes = [''supported_features'' \<mapsto> PInt 1] \<rparr>) = Inr (Some d)
        \<and> device_type d = ''action.devices.types.LIGHT''
        \<and> traits d = ''action.devices.traits.OnOff'' # rest)
   \<and> ''sensor'' \<notin> dom (MAPPING_COMPONENT ha_consts)
   \<and> fst (entity_to_device ha_consts
          \<lparr> entity_id = ''sensor.door'', domain = ''sensor'', state = ''on'',
            attributes = Map.empty \<rparr>) = Inr None
   \<and> (\<forall>m. as_num PNone \<noteq> Some (NInt m))
   \<and> fst (entity_to_device ha_consts
          \<lparr> entity_id = ''light.kitchen'', domain = ''light'', state = ''on'',
            attributes = [''supported_features'' \<mapsto> PNone] \<rparr>) = Inl TypeError"
  using entity_to_device_capability_map
     [of ha_consts "\<lparr> entity_id = ''light.kitchen'', domain = ''light'', state = ''on'',
            attributes = [''supported_features'' \<mapsto> PInt 1] \<rparr>"]
    entity_to_device_capability_map
     [of ha_consts "\<lparr> entity_id = ''sensor.door'', domain = ''sensor'', state = ''on'',
            attributes = Map.empty \<rparr>"]
    entity_to_device_capability_map
     [of ha_consts "\<lparr> entity_id = ''light.kitchen'', domain = ''light'', state = ''on'',
            attributes = [''supported_features'' \<mapsto> PNone] \<rparr>"]
  by (simp add: MAPPING_COMPONENT_def ha_consts_def dict_literal_def domIff)


text \<open>
  C8.  For a mapped domain and bitmasks \<open>m1\<close>, \<open>m2\<close> with the bits of \<open>m1\<close> among those
  of the natural number \<open>m2\<close>, every trait of the device built with \<open>m1\<close> is a trait of
  the device built with \<open>m2\<close>.  The traits are the base trait followed, in the order of
  the map, by the traits whose flag has a bit in common with the bitmask; without the
  attribute the bitmask is 0 and the base trait stands alone.
\<close>

theorem trait_inclusion_monotone:
  assumes cd: "MAPPING_COMPONENT c (domain e) = Some (ty, base, optional)"
    and sub: "m1 AND m2 = m1"
    and nonneg: "0 \<le> m2"
  shows "\<exists>d1 d2.
           fst (entity_to_device c
                  (e\<lparr>attributes := (attributes e)(ATTR_SUPPORTED_FEATURES c \<mapsto> PInt m1)\<rparr>))
             = Inr (Some d1)
         \<and> fst (entity_to_device c
                  (e\<lparr>attributes := (attributes e)(ATTR_SUPPORTED_FEATURES c \<mapsto> PInt m2)\<rparr>))
             = Inr (Some d2)
         \<and> set (traits d1) \<subseteq> set (traits d2)
         \<and> traits d2 = (PREFIX_TRAITS c @ base) #
               map (\<lambda>(f, t). PREFIX_TRAITS c @ t)
                 (filter (\<lambda>(f, t). f AND m2 \<noteq> 0)
                    (case optional of None \<Rightarrow> [] | Some fs \<Rightarrow> fs))
         \<and> (attributes e (ATTR_SUPPORTED_FEATURES c) = None
              \<longrightarrow> (\<exists>d0. fst (entity_to_device c e) = Inr (Some d0)
                       \<and> traits d0 = [PREFIX_TRAITS c @ base]))"
proof -
  let ?e1 = "e\<lparr>attributes := (attributes e)(ATTR_SUPPORTED_FEATURES c \<mapsto> PInt m1)\<rparr>"
  let ?e2 = "e\<lparr>attributes := (attributes e)(ATTR_SUPPORTED_FEATURES c \<mapsto> PInt m2)\<rparr>"
  let ?fs = "case optional of None \<Rightarrow> [] | Some fs \<Rightarrow> fs"
  let ?tr = "\<lambda>m. (PREFIX_TRAITS c @ base) #
               map (\<lambda>(f, t). PREFIX_TRAITS c @ t) (filter (\<lambda>(f, t). 0 < f AND m) ?fs)"
  have cd1: "MAPPING_COMPONENT c (domain ?e1) = Some (ty, base, optional)" using cd by simp
  have cd2: "MAPPING_COMPONENT c (domain ?e2) = Some (ty, base, optional)" using cd by simp
  have n1: "as_num (dict_get_default (attributes ?e1) (ATTR_SUPPORTED_FEATURES c) (PInt 0))
              = Some (NInt m1)"
    by (simp add: dict_get_default_def)
  have n2: "as_num (dict_get_default (attributes ?e2) (ATTR_SUPPORTED_FEATURES c) (PInt 0))
              = Some (NInt m2)"
    by (simp add: dict_get_default_def)
  obtain d1 where d1: "fst (entity_to_device c ?e1) = Inr (Some d1)" "traits d1 = ?tr m1"
    using entity_to_device_mapped [OF cd1 n1] by blast
  obtain d2 where d2: "fst (entity_to_device c ?e2) = Inr (Some d2)" "traits d2 = ?tr m2"
    using entity_to_device_mapped [OF cd2 n2] by blast
  have pos: "0 < f AND m2 \<longleftrightarrow> f AND m2 \<noteq> 0" for f
  proof -
    have "0 \<le> f AND m2" using nonneg by simp
    then show ?thesis by linarith
  qed
  have incl: "set (traits d1) \<subseteq> set (traits d2)"
    unfolding d1(2) d2(2) using and_subset_pos [OF _ sub nonneg] by auto
  have shape: "traits d2 = (PREFIX_TRAITS c @ base) #
               map (\<lambda>(f, t). PREFIX_TRAITS c @ t) (filter (\<lambda>(f, t). f AND m2 \<noteq> 0) ?fs)"
    unfolding d2(2) by (simp add: pos)
  have dflt: "attributes e (ATTR_SUPPORTED_FEATURES c) = None
                \<longrightarrow> (\<exists>d0. fst (entity_to_device c e) = Inr (Some d0)
                       \<and> traits d0 = [PREFIX_TRAITS c @ base])"
  proof
    assume absent: "attributes e (ATTR_SUPPORTED_FEATURES c) = None"
    have "as_num (dict_get_default (attributes e) (ATTR_SUPPORTED_FEATURES c) (PInt 0))
            = Some (NInt 0)"
      using absent by (simp add: dict_get_default_def)
    from entity_to_device_mapped [OF cd this]
    show "\<exists>d0. fst (entity_to_device c e) = Inr (Some d0)
                \<and> traits d0 = [PREFIX_TRAITS c @ base]"
      by auto
  qed
  show ?thesis
    by (intro exI [of _ d1] exI [of _ d2] conjI d1(1) d2(1) incl shape dflt)
qed

theorem trait_inclusion_monotone_witness:
  "MAPPING_COMPONENT ha_consts ''light'' =
         Some (''LIGHT'', ''OnOff'',
               Some [(1, ''Brightness''), (16, ''ColorSpectrum''), (2, ''ColorTemperature'')])
   \<and> (1 :: int) AND 17 = 1 \<and> (0 :: int) \<le> 17
   \<and> (\<exists>d1 d2.
         fst (entity_to_device ha_consts
                \<lparr> entity_id = ''light.kitchen'', domain = ''light'', state = ''on'',
                  attributes = [''supported_features'' \<mapsto> PInt 1] \<rparr>) = Inr (Some d1)
       \<and> fst (entity_to_device ha_consts
                \<lparr> entity_id = ''light.kitchen'', domain = ''light'', state = ''on'',
                  attributes = [''supported_features'' \<mapsto> PInt 17] \<rparr>) = Inr (Some d2)
       \<and> set (traits d1) \<subseteq> set (traits d2)
       \<and> traits d2 = [''action.devices.traits.OnOff'', ''action.devices.traits.Brightness'',
                       ''action.devices.traits.ColorSpectrum''])
   \<and> (\<exists>d0.
         fst (entity_to_device ha_consts
                \<lparr> entity_id = ''light.kitchen'', domain = ''light'', state = ''on'',
                  attributes = Map.empty \<rparr>) = Inr (Some d0)
       \<and> traits d0 = [''action.devices.traits.OnOff''])"
proof -
  have m: "MAPPING_COMPONENT ha_consts
             (domain \<lparr> entity_id = ''light.kitchen'', domain = ''light'', state = ''on'',
                       attributes = Map.empty \<rparr>) =
         Some (''LIGHT'', ''OnOff'',
               Some [(1, ''Brightness''), (16, ''ColorSpectrum''), (2, ''ColorTemperature'')])"
    by (simp add: MAPPING_COMPONENT_def ha_consts_def dict_literal_def)
  have s: "(1 :: int) AND 17 = 1" by simp
  have n: "(0 :: int) \<le> 17" by simp
  have p: "PREFIX_TRAITS ha_consts = ''action.devices.traits.''"
    and a: "ATTR_SUPPORTED_FEATURES ha_consts = ''supported_features''"
    by (simp_all add: ha_consts_def)
  show ?thesis
    using m s n trait_inclusion_monotone [OF m s n]
    by (simp add: p a) blast
qed

section \<open>Commands that switch on and off\<close>

text \<open>
  C6.  For an entity id whose domain, the part before the first dot, is \<open>cover\<close>, the
  on/off command resolves to the open-cover service when the \<open>on\<close> parameter is the
  boolean \<open>True\<close> and to the close-cover service otherwise; the service data is the
  entity id alone.  The on/off command and the brightness command are different commands.
\<close>

theorem cover_onoff_open_close:
  assumes "takeWhile (\<lambda>ch. ch \<noteq> CHR ''.'') eid = ''cover''"
    and "COMMAND_ONOFF c \<noteq> COMMAND_BRIGHTNESS c"
  shows "determine_service c eid (COMMAND_ONOFF c) params =
           Inr (if params ''on'' = Some (PBool True)
                then cover_SERVICE_OPEN_COVER c else cover_SERVICE_CLOSE_COVER c,
                [ATTR_ENTITY_ID c \<mapsto> PStr eid])"
  using assms
  by (auto simp add: determine_service_def split_first_takeWhile dict_get_def
        split: option.splits)

theorem cover_onoff_open_close_witness:
  "takeWhile (\<lambda>ch. ch \<noteq> CHR ''.'') ''cover.garage'' = ''cover''
   \<and> COMMAND_ONOFF ha_consts \<noteq> COMMAND_BRIGHTNESS ha_consts
   \<and> determine_service ha_consts ''cover.garage'' (COMMAND_ONOFF ha_consts)
         [''on'' \<mapsto> PBool True]
       = Inr (''open_cover'', [''entity_id'' \<mapsto> PStr ''cover.garage''])
   \<and> determine_service ha_consts ''cover.garage'' (COMMAND_ONOFF ha_consts)
         [''on'' \<mapsto> PBool False]
       = Inr (''close_cover'', [''entity_id'' \<mapsto> PStr ''cover.garage''])"
proof -
  have d: "takeWhile (\<lambda>ch. ch \<noteq> CHR ''.'') ''cover.garage'' = ''cover''" by simp
  have n: "COMMAND_ONOFF ha_consts \<noteq> COMMAND_BRIGHTNESS ha_consts"
    by (simp add: ha_consts_def)
  show ?thesis
    using d n
      cover_onoff_open_close [OF d n, of "[''on'' \<mapsto> PBool True]"]
      cover_onoff_open_close [OF d n, of "[''on'' \<mapsto> PBool False]"]
    by (simp add: ha_consts_def)
qed

text \<open>
  C7.  For an entity id whose domain is not \<open>cover\<close>, the on/off command with an
  \<open>on\<close> parameter that is not \<open>True\<close> (or is missing), and every command that is
  neither the on/off nor the brightness command, resolve to the turn-off service with
  the entity id as the only service data.
\<close>

theorem fallback_turn_off:
  assumes "takeWhile (\<lambda>ch. ch \<noteq> CHR ''.'') eid \<noteq> ''cover''"
    and "COMMAND_ONOFF c \<noteq> COMMAND_BRIGHTNESS c"
    and "(command = COMMAND_ONOFF c \<and> params ''on'' \<noteq> Some (PBool True))
         \<or> (command \<noteq> COMMAND_ONOFF c \<and> command \<noteq> COMMAND_BRIGHTNESS c)"
  shows "determine_service c eid command params =
           Inr (SERVICE_TURN_OFF c, [ATTR_ENTITY_ID c \<mapsto> PStr eid])"
  using assms
  by (auto simp add: determine_service_def split_first_takeWhile dict_get_def
        split: option.splits)

theorem fallback_turn_off_witness:
  "takeWhile (\<lambda>ch. ch \<noteq> CHR ''.'') ''switch.x'' \<noteq> ''cover''
   \<and> COMMAND_ONOFF ha_consts \<noteq> COMMAND_BRIGHTNESS ha_consts
   \<and> Map.empty ''on'' \<noteq> Some (PBool True)
   \<and> determine_service ha_consts ''switch.x'' (COMMAND_ONOFF ha_consts) Map.empty
       = Inr (''turn_off'', [''entity_id'' \<mapsto> PStr ''switch.x''])"
proof -
  have d: "takeWhile (\<lambda>ch. ch \<noteq> CHR ''.'') ''switch.x'' \<noteq> ''cover''" by simp
  have n: "COMMAND_ONOFF ha_consts \<noteq> COMMAND_BRIGHTNESS ha_consts"
    by (simp add: ha_consts_def)
  have p: "(COMMAND_ONOFF ha_consts = COMMAND_ONOFF ha_consts
              \<and> (Map.empty :: pydict) ''on'' \<noteq> Some (PBool True))
           \<or> (COMMAND_ONOFF ha_consts \<noteq> COMMAND_ONOFF ha_consts
              \<and> COMMAND_ONOFF ha_consts \<noteq> COMMAND_BRIGHTNESS ha_consts)"
    by simp
  show ?thesis
    using d n fallback_turn_off [OF d n p] by (simp add: ha_consts_def)
qed

text \<open>
  C9.  The \<open>on\<close> parameter is compared by identity with \<open>True\<close>.  Under the on/off
  command every other value, the integer 1 and a non-empty string among them, gives
  the close-cover service for a cover and the turn-off service for any other domain.
\<close>

theorem onoff_identity_with_True:
  assumes "params ''on'' \<noteq> Some (PBool True)"
    and "COMMAND_ONOFF c \<noteq> COMMAND_BRIGHTNESS c"
  shows "determine_service c eid (COMMAND_ONOFF c) params =
           Inr (if takeWhile (\<lambda>ch. ch \<noteq> CHR ''.'') eid = ''cover''
                then cover_SERVICE_CLOSE_COVER c else SERVICE_TURN_OFF c,
                [ATTR_ENTITY_ID c \<mapsto> PStr eid])"
  using assms
  by (auto simp add: determine_service_def split_first_takeWhile dict_get_def
        split: option.splits)

theorem onoff_identity_with_True_witness:
  "[''on'' \<mapsto> PInt 1] ''on'' \<noteq> Some (PBool True)
   \<and> [''on'' \<mapsto> PStr ''yes''] ''on'' \<noteq> Some (PBool True)
   \<and> COMMAND_ONOFF ha_consts \<noteq> COMMAND_BRIGHTNESS ha_consts
   \<and> determine_service ha_consts ''cover.garage'' (COMMAND_ONOFF ha_consts)
         [''on'' \<mapsto> PInt 1]
       = Inr (''close_cover'', [''entity_id'' \<mapsto> PStr ''cover.garage''])
   \<and> determine_service ha_consts ''light.kitchen'' (COMMAND_ONOFF ha_consts)
         [''on'' \<mapsto> PStr ''yes'']
       = Inr (''turn_off'', [''entity_id'' \<mapsto> PStr ''light.kitchen''])"
proof -
  have a: "[''on'' \<mapsto> PInt 1] ''on'' \<noteq> Some (PBool True)" by simp
  have b: "[''on'' \<mapsto> PStr ''yes''] ''on'' \<noteq> Some (PBool True)" by simp
  have n: "COMMAND_ONOFF ha_consts \<noteq> COMMAND_BRIGHTNESS ha_consts"
    by (simp add: ha_consts_def)
  show ?thesis
    using a b n
      onoff_identity_with_True
        [where params = "[''on'' \<mapsto> PInt 1]" and c = ha_consts and eid = "''cover.garage''",
         OF a n]
      onoff_identity_with_True
        [where params = "[''on'' \<mapsto> PStr ''yes'']" and c = ha_consts
           and eid = "''light.kitchen''",
         OF b n]
    by (simp add: ha_consts_def)
qed

section \<open>The generic brightness command\<close>

lemma generic_brightness_branch:
  assumes "takeWhile (\<lambda>ch. ch \<noteq> CHR ''.'') eid \<noteq> ''media_player''"
    and "takeWhile (\<lambda>ch. ch \<noteq> CHR ''.'') eid \<noteq> ''cover''"
  shows "determine_service c eid (COMMAND_BRIGHTNESS c) params =
           err_bind (py_truediv (dict_get params ''brightness'') (PInt 100))
             (\<lambda>q. err_bind (num_mul (NFloat q) (NInt 255))
                (\<lambda>p. err_bind (num_int p)
                   (\<lambda>n. Inr (SERVICE_TURN_ON c,
                              [ATTR_ENTITY_ID c \<mapsto> PStr eid, ''brightness'' \<mapsto> PInt n]))))"
  using assms
  by (simp add: determine_service_def split_first_takeWhile del: num_mul.simps)

lemma py_truediv_int_like:
  assumes "as_num v = Some (NInt n)"
  shows "py_truediv v w = py_truediv (PInt n) w"
  using assms by (simp add: py_truediv_def)

lemma generic_brightness_percent:
  assumes "takeWhile (\<lambda>ch. ch \<noteq> CHR ''.'') eid \<noteq> ''media_player''"
    and "takeWhile (\<lambda>ch. ch \<noteq> CHR ''.'') eid \<noteq> ''cover''"
    and "params ''brightness'' = Some v" "as_num v = Some (NInt n)" "0 \<le> n" "n \<le> 100"
  shows "determine_service c eid (COMMAND_BRIGHTNESS c) params =
           Inr (SERVICE_TURN_ON c,
                [ATTR_ENTITY_ID c \<mapsto> PStr eid, ''brightness'' \<mapsto> PInt ((255 * n) div 100)])"
proof -
  have g: "dict_get params ''brightness'' = v"
    using assms(3) by (simp add: dict_get_def)
  show ?thesis
    unfolding generic_brightness_branch [OF assms(1,2)] g py_truediv_int_like [OF assms(4)]
    using assms(5,6) by (rule level_of_percent)
qed

lemma generic_brightness_int:
  assumes "takeWhile (\<lambda>ch. ch \<noteq> CHR ''.'') eid \<noteq> ''media_player''"
    and "takeWhile (\<lambda>ch. ch \<noteq> CHR ''.'') eid \<noteq> ''cover''"
    and "params ''brightness'' = Some v" "as_num v = Some b"
  shows "determine_service c eid (COMMAND_BRIGHTNESS c) params =
           err_bind (num_truediv b (NInt 100))
             (\<lambda>q. err_bind (float_int (float_mul q (FNum 255)))
                (\<lambda>n. Inr (SERVICE_TURN_ON c,
                           [ATTR_ENTITY_ID c \<mapsto> PStr eid, ''brightness'' \<mapsto> PInt n])))"
proof -
  have g: "dict_get params ''brightness'' = v"
    using assms(3) by (simp add: dict_get_def)
  have d: "py_truediv v (PInt 100) = num_truediv b (NInt 100)"
    using assms(4) by (simp add: py_truediv_def)
  show ?thesis
    unfolding generic_brightness_branch [OF assms(1,2)] g d
    by (simp add: float_of_int_255)
qed

lemma generic_brightness_finite:
  assumes "takeWhile (\<lambda>ch. ch \<noteq> CHR ''.'') eid \<noteq> ''media_player''"
    and "takeWhile (\<lambda>ch. ch \<noteq> CHR ''.'') eid \<noteq> ''cover''"
    and "params ''brightness'' = Some v" "as_num v = Some b"
    and "num_truediv b (NInt 100) = Inr q" "float_mul q (FNum 255) = FNum x"
  shows "determine_service c eid (COMMAND_BRIGHTNESS c) params =
           Inr (SERVICE_TURN_ON c,
                [ATTR_ENTITY_ID c \<mapsto> PStr eid, ''brightness'' \<mapsto> PInt (trunc_rat x)])"
proof -
  have g: "dict_get params ''brightness'' = v"
    using assms(3) by (simp add: dict_get_def)
  have d: "py_truediv v (PInt 100) = Inr q"
    using assms(4,5) by (simp add: py_truediv_def)
  have m: "num_mul (NFloat q) (NInt 255) = Inr (NFloat (FNum x))"
    using assms(6) by (simp add: float_of_int_255)
  show ?thesis
    unfolding generic_brightness_branch [OF assms(1,2)] g d
    by (simp add: m del: num_mul.simps)
qed

text \<open>
  The claimed result for a brightness of 50, a service data brightness of 128, is not
  what the generic branch returns: \<open>int\<close> truncates 127.5 to 127.
\<close>

theorem generic_brightness_rounds_counterexample:
  "determine_service ha_consts ''light.kitchen'' (COMMAND_BRIGHTNESS ha_consts)
       [''brightness'' \<mapsto> PInt 50]
     \<noteq> Inr (SERVICE_TURN_ON ha_consts,
             [ATTR_ENTITY_ID ha_consts \<mapsto> PStr ''light.kitchen'', ''brightness'' \<mapsto> PInt 128])"
proof
  assume eq: "determine_service ha_consts ''light.kitchen'' (COMMAND_BRIGHTNESS ha_consts)
       [''brightness'' \<mapsto> PInt 50]
     = Inr (SERVICE_TURN_ON ha_consts,
             [ATTR_ENTITY_ID ha_consts \<mapsto> PStr ''light.kitchen'', ''brightness'' \<mapsto> PInt 128])"
  have "determine_service ha_consts ''light.kitchen'' (COMMAND_BRIGHTNESS ha_consts)
       [''brightness'' \<mapsto> PInt 50]
     = Inr (SERVICE_TURN_ON ha_consts,
             [ATTR_ENTITY_ID ha_consts \<mapsto> PStr ''light.kitchen'',
              ''brightness'' \<mapsto> PInt ((255 * 50) div 100)])"
    by (rule generic_brightness_percent [where v = "PInt 50"]) simp_all
  with eq have "[ATTR_ENTITY_ID ha_consts \<mapsto> PStr ''light.kitchen'', ''brightness'' \<mapsto> PInt 128]
                  = [ATTR_ENTITY_ID ha_consts \<mapsto> PStr ''light.kitchen'',
                     ''brightness'' \<mapsto> PInt ((255 * 50) div 100)]"
    by simp
  then have "[ATTR_ENTITY_ID ha_consts \<mapsto> PStr ''light.kitchen'', ''brightness'' \<mapsto> PInt 128]
                 ''brightness''
               = [ATTR_ENTITY_ID ha_consts \<mapsto> PStr ''light.kitchen'',
                     ''brightness'' \<mapsto> PInt ((255 * 50) div 100)] ''brightness''"
    by (rule arg_cong)
  then show False by simp
qed

text \<open>
  C1 (amended).  For an entity id whose domain is neither \<open>media_player\<close> nor
  \<open>cover\<close>, the brightness command with a numeric brightness computes
  \<open>int(brightness / 100 * 255)\<close> in double arithmetic: it resolves to the turn-on
  service with the entity id and the product truncated toward zero, not rounded, and
  raises where the division or \<open>int\<close> raise, that is when the product is not finite.
  For an int brightness \<open>n\<close> from 0 to 100 the brightness is \<open>255 * n div 100\<close>.
\<close>

theorem generic_brightness_truncates:
  assumes "takeWhile (\<lambda>ch. ch \<noteq> CHR ''.'') eid \<noteq> ''media_player''"
    and "takeWhile (\<lambda>ch. ch \<noteq> CHR ''.'') eid \<noteq> ''cover''"
  shows "(params ''brightness'' = Some v \<and> as_num v = Some b
          \<longrightarrow> determine_service c eid (COMMAND_BRIGHTNESS c) params =
                err_bind (num_truediv b (NInt 100))
                  (\<lambda>q. err_bind (float_int (float_mul q (FNum 255)))
                     (\<lambda>n. Inr (SERVICE_TURN_ON c,
                                [ATTR_ENTITY_ID c \<mapsto> PStr eid, ''brightness'' \<mapsto> PInt n]))))
       \<and> (params ''brightness'' = Some v \<and> as_num v = Some b
            \<and> num_truediv b (NInt 100) = Inr q \<and> float_mul q (FNum 255) = FNum x
          \<longrightarrow> determine_service c eid (COMMAND_BRIGHTNESS c) params =
                Inr (SERVICE_TURN_ON c,
                     [ATTR_ENTITY_ID c \<mapsto> PStr eid, ''brightness'' \<mapsto> PInt (trunc_rat x)]))
       \<and> (params ''brightness'' = Some v \<and> as_num v = Some (NInt n) \<and> 0 \<le> n \<and> n \<le> 100
          \<longrightarrow> determine_service c eid (COMMAND_BRIGHTNESS c) params =
                Inr (SERVICE_TURN_ON c,
                     [ATTR_ENTITY_ID c \<mapsto> PStr eid,
                      ''brightness'' \<mapsto> PInt ((255 * n) div 100)]))"
  using generic_brightness_int [OF assms] generic_brightness_finite [OF assms]
    generic_brightness_percent [OF assms]
  by blast

theorem generic_brightness_truncates_witness:
  "takeWhile (\<lambda>ch. ch \<noteq> CHR ''.'') ''light.kitchen'' \<noteq> ''media_player''
   \<and> takeWhile (\<lambda>ch. ch \<noteq> CHR ''.'') ''light.kitchen'' \<noteq> ''cover''
   \<and> num_truediv (NInt 50) (NInt 100) = Inr (FNum (1 / 2))
   \<and> float_mul (FNum (1 / 2)) (FNum 255) = FNum (255 / 2)
   \<and> trunc_rat (255 / 2) = 127
   \<and> determine_service ha_consts ''light.kitchen'' (COMMAND_BRIGHTNESS ha_consts)
        [''brightness'' \<mapsto> PInt 50]
       = Inr (''turn_on'', [''entity_id'' \<mapsto> PStr ''light.kitchen'', ''brightness'' \<mapsto> PInt 127])"
proof -
  have d1: "takeWhile (\<lambda>ch. ch \<noteq> CHR ''.'') ''light.kitchen'' \<noteq> ''media_player''" by simp
  have d2: "takeWhile (\<lambda>ch. ch \<noteq> CHR ''.'') ''light.kitchen'' \<noteq> ''cover''" by simp
  have q: "num_truediv (NInt 50) (NInt 100) = Inr (FNum (1 / 2))"
    by (simp add: double_eval)
  have m: "float_mul (FNum (1 / 2)) (FNum 255) = FNum (255 / 2)"
    by (simp add: double_eval)
  have t: "trunc_rat (255 / 2) = 127"
    by (simp add: double_eval)
  have p: "[''brightness'' \<mapsto> PInt 50] ''brightness'' = Some (PInt 50) \<and> as_num (PInt 50) = Some (NInt 50)
            \<and> num_truediv (NInt 50) (NInt 100) = Inr (FNum (1 / 2))
            \<and> float_mul (FNum (1 / 2)) (FNum 255) = FNum (255 / 2)"
    using q m by simp
  have "determine_service ha_consts ''light.kitchen'' (COMMAND_BRIGHTNESS ha_consts)
        [''brightness'' \<mapsto> PInt 50]
       = Inr (SERVICE_TURN_ON ha_consts,
              [ATTR_ENTITY_ID ha_consts \<mapsto> PStr ''light.kitchen'',
               ''brightness'' \<mapsto> PInt (trunc_rat (255 / 2))])"
    using generic_brightness_truncates
            [OF d1 d2, where c = ha_consts and params = "[''brightness'' \<mapsto> PInt 50]"
               and v = "PInt 50" and b = "NInt 50" and q = "FNum (1 / 2)" and x = "255 / 2"] p
    by blast
  then have "determine_service ha_consts ''light.kitchen'' (COMMAND_BRIGHTNESS ha_consts)
        [''brightness'' \<mapsto> PInt 50]
       = Inr (''turn_on'', [''entity_id'' \<mapsto> PStr ''light.kitchen'', ''brightness'' \<mapsto> PInt 127])"
    unfolding t by (simp add: ha_consts_def)
  with d1 d2 q m t show ?thesis by blast
qed

section \<open>The brightness command without a brightness\<close>

text \<open>
  C2.  The generic brightness branch reads the parameter with no default, so for a
  parameter dictionary without a brightness the division is applied to \<open>None\<close> and
  raises TypeError: the call does not return a service.
\<close>

theorem generic_brightness_missing_raises:
  "determine_service c ''light.kitchen'' (COMMAND_BRIGHTNESS c) Map.empty = Inl TypeError"
  by (simp add: determine_service_def split_first_takeWhile dict_get_def py_truediv_def)

section \<open>Rounding within the byte range\<close>

lemma rhe_close: "\<bar>of_int (round_half_even y) - y\<bar> \<le> 1 / 2"
proof -
  define n where "n = \<lfloor>y\<rfloor>"
  have lo: "of_int n \<le> y" and hi: "y < of_int n + 1"
    unfolding n_def by linarith+
  show ?thesis
    unfolding round_half_even_def Let_def n_def [symmetric]
    using lo hi by (simp add: abs_le_iff)
qed

lemma rhe_le_int:
  assumes "y \<le> of_int N"
  shows "round_half_even y \<le> N"
proof -
  have "of_int (round_half_even y) \<le> y + 1 / 2"
    using rhe_close [of y] unfolding abs_le_iff by linarith
  with assms have "(of_int (round_half_even y) :: rat) < of_int (N + 1)" by simp
  then have "round_half_even y < N + 1" by (simp only: of_int_less_iff)
  then show ?thesis by simp
qed

lemma rhe_ge_int:
  assumes "of_int N \<le> y"
  shows "N \<le> round_half_even y"
proof -
  have "y - 1 / 2 \<le> of_int (round_half_even y)"
    using rhe_close [of y] unfolding abs_le_iff by linarith
  with assms have "(of_int (N - 1) :: rat) < of_int (round_half_even y)" by simp
  then have "N - 1 < round_half_even y" by (simp only: of_int_less_iff)
  then show ?thesis by simp
qed

lemma bitlen_le_8:
  assumes "n \<le> 255"
  shows "bitlen n \<le> 8"
proof (cases "0 < n")
  case True
  then show ?thesis using assms by (simp add: bitlen_le_iff_power)
next
  case False
  then show ?thesis by (simp add: bitlen_eq_zero_iff [THEN iffD2])
qed

lemma floor_log2_small:
  assumes "x \<le> 255"
  shows "floor_log2 x \<le> 7"
proof (cases "1 \<le> x")
  case True
  have "\<lfloor>x\<rfloor> \<le> 255" using assms by (simp add: floor_le_iff)
  then have "bitlen \<lfloor>x\<rfloor> \<le> 8" by (rule bitlen_le_8)
  with True show ?thesis by (simp add: floor_log2_def)
next
  case False
  then show ?thesis using bitlen_nonneg [of "\<lceil>1 / x\<rceil> - 1"] by (simp add: floor_log2_def)
qed

lemma round_double_range:
  assumes "0 \<le> x" "x \<le> 255"
  shows "\<exists>y. round_double x = FNum y \<and> 0 \<le> y \<and> y \<le> 255"
proof (cases "x = 0")
  case True
  then show ?thesis by (simp add: round_double_def)
next
  case False
  define e where "e = max (floor_log2 \<bar>x\<bar> - 52) (- 1074)"
  define k where "k = nat (- e)"
  define m where "m = round_half_even (x / scale2 e)"
  have "floor_log2 \<bar>x\<bar> \<le> 7" using assms by (intro floor_log2_small) simp
  then have e_neg: "e < 0" unfolding e_def by simp
  then have s: "scale2 e = 1 / 2 ^ k" unfolding scale2_def k_def by simp
  have xs: "x / scale2 e = x * 2 ^ k" unfolding s by simp
  have "x * 2 ^ k \<le> of_int (255 * 2 ^ k)" using assms by simp
  then have m_hi: "m \<le> 255 * 2 ^ k" unfolding m_def xs by (rule rhe_le_int)
  have "of_int 0 \<le> x * 2 ^ k" using assms by simp
  then have m_lo: "0 \<le> m" unfolding m_def xs by (rule rhe_ge_int)
  define r where "r = of_int m * scale2 e"
  have r_lo: "0 \<le> r" unfolding r_def s using m_lo by simp
  have "(of_int m :: rat) \<le> of_int (255 * 2 ^ k)" using m_hi by (simp only: of_int_le_iff)
  then have "(of_int m :: rat) \<le> 255 * 2 ^ k" by simp
  then have r_hi: "r \<le> 255" unfolding r_def s by (simp add: field_simps)
  have "(255::rat) < 2 ^ 1024" by simp
  with r_hi r_lo have "\<not> 2 ^ 1024 \<le> \<bar>r\<bar>" by linarith
  then have "round_double x = FNum r"
    using False unfolding round_double_def Let_def e_def [symmetric] m_def [symmetric] r_def [symmetric]
    by simp
  with r_lo r_hi show ?thesis by blast
qed

text \<open>The volume level of a media player as a brightness out of 255.\<close>

lemma volume_to_byte:
  assumes "0 \<le> x"
  shows "\<exists>y. float_mul (FNum (min 1 x)) (FNum 255) = FNum y
           \<and> 0 \<le> round_half_even y \<and> round_half_even y \<le> 255
           \<and> err_bind (py_min (NFloat (FNum 1)) (PFloat (FNum x)))
                (\<lambda>m. err_bind (num_mul m (NInt 255))
                   (\<lambda>p. err_bind (num_round p) (\<lambda>r. Inr (PInt r))))
               = Inr (PInt (round_half_even y))"
proof -
  have "0 \<le> min 1 x * 255" "min 1 x * 255 \<le> 255" using assms by auto
  then obtain y where y: "round_double (min 1 x * 255) = FNum y" "0 \<le> y" "y \<le> 255"
    using round_double_range by blast
  have lo: "0 \<le> round_half_even y" using y(2) by (intro rhe_ge_int) simp
  have hi: "round_half_even y \<le> 255" using y(3) by (intro rhe_le_int) simp
  have m: "py_min (NFloat (FNum 1)) (PFloat (FNum x)) = Inr (NFloat (FNum (min 1 x)))"
    by (auto simp add: py_min_def num_lt_def min_def)
  show ?thesis
    using y(1) lo hi by (simp add: m float_of_int_255)
qed

section \<open>State queries\<close>

lemma scaled_byte:
  assumes "0 \<le> b" "b \<le> 255"
  shows "scaled st (PInt b) = Inr \<lparr> on = st, online = True, brightness = (100 * b) div 255 \<rparr>"
  using assms by (rule percent_of_byte)

lemma query_device_byte:
  assumes "domain e \<noteq> media_player_DOMAIN c"
    and "attributes e (light_ATTR_BRIGHTNESS c) = Some (PInt b)"
    and "0 \<le> b" "b \<le> 255"
  shows "query_device c e =
           Inr \<lparr> on = (state e \<noteq> STATE_OFF c), online = True,
                 brightness = (100 * b) div 255 \<rparr>"
proof -
  have "query_device c e = scaled (state e \<noteq> STATE_OFF c) (PInt b)"
    using assms(1,2) by (simp add: query_device_def Let_def dict_get_default_def del: num_mul.simps)
  then show ?thesis by (simp only: scaled_byte [OF assms(3,4)])
qed

lemma query_device_default:
  assumes "domain e \<noteq> media_player_DOMAIN c"
    and "attributes e (light_ATTR_BRIGHTNESS c) = None
         \<or> attributes e (light_ATTR_BRIGHTNESS c) = Some PNone"
  shows "query_device c e =
           Inr \<lparr> on = (state e \<noteq> STATE_OFF c), online = True,
                 brightness = (if state e \<noteq> STATE_OFF c then 100 else 0) \<rparr>"
proof -
  have "query_device c e =
          scaled (state e \<noteq> STATE_OFF c) (PInt (if state e \<noteq> STATE_OFF c then 255 else 0))"
    using assms by (auto simp add: query_device_def Let_def dict_get_default_def simp del: num_mul.simps)
  moreover have "scaled st (PInt 255) = Inr \<lparr> on = st, online = True, brightness = 100 \<rparr>" for st
    using scaled_byte [of 255 st] by simp
  moreover have "scaled st (PInt 0) = Inr \<lparr> on = st, online = True, brightness = 0 \<rparr>" for st
    using scaled_byte [of 0 st] by simp
  ultimately show ?thesis by simp
qed

lemma query_device_media:
  assumes "domain e = media_player_DOMAIN c"
    and "dict_get_default (attributes e) (media_player_ATTR_MEDIA_VOLUME_LEVEL c)
           (PFloat (FNum (if state e \<noteq> STATE_OFF c then 1 else 0))) = PFloat (FNum x)"
    and "0 \<le> x"
  shows "\<exists>y. float_mul (FNum (min 1 x)) (FNum 255) = FNum y
           \<and> 0 \<le> round_half_even y \<and> round_half_even y \<le> 255
           \<and> query_device c e =
               Inr \<lparr> on = (state e \<noteq> STATE_OFF c), online = True,
                     brightness = (100 * round_half_even y) div 255 \<rparr>"
proof -
  obtain y where y: "float_mul (FNum (min 1 x)) (FNum 255) = FNum y"
      "0 \<le> round_half_even y" "round_half_even y \<le> 255"
      "err_bind (py_min (NFloat (FNum 1)) (PFloat (FNum x)))
                (\<lambda>m. err_bind (num_mul m (NInt 255))
                   (\<lambda>p. err_bind (num_round p) (\<lambda>r. Inr (PInt r))))
               = Inr (PInt (round_half_even y))"
    using volume_to_byte [OF assms(3)] by blast
  have "query_device c e = scaled (state e \<noteq> STATE_OFF c) (PInt (round_half_even y))"
    using assms(1)
    by (simp add: query_device_def Let_def assms(2) y(4) del: num_mul.simps)
  then have "query_device c e =
               Inr \<lparr> on = (state e \<noteq> STATE_OFF c), online = True,
                     brightness = (100 * round_half_even y) div 255 \<rparr>"
    by (simp only: scaled_byte [OF y(2,3)])
  with y(1,2,3) show ?thesis by blast
qed

lemma query_device_media_half:
  assumes "domain e = media_player_DOMAIN c"
    and "attributes e (media_player_ATTR_MEDIA_VOLUME_LEVEL c) = Some (PFloat (FNum (1 / 2)))"
  shows "query_device c e =
           Inr \<lparr> on = (state e \<noteq> STATE_OFF c), online = True, brightness = 50 \<rparr>"
proof -
  have l: "dict_get_default (attributes e) (media_player_ATTR_MEDIA_VOLUME_LEVEL c)
             (PFloat (FNum (if state e \<noteq> STATE_OFF c then 1 else 0))) = PFloat (FNum (1 / 2))"
    using assms(2) by (simp add: dict_get_default_def)
  have x: "(0 :: rat) \<le> 1 / 2" by simp
  have m: "float_mul (FNum (min 1 (1 / 2))) (FNum 255) = FNum (255 / 2)"
    by (simp add: double_eval)
  have r: "round_half_even (255 / 2) = 128"
    by (simp add: double_eval)
  obtain y where y: "float_mul (FNum (min 1 (1 / 2))) (FNum 255) = FNum y"
     "query_device c e =
        Inr \<lparr> on = (state e \<noteq> STATE_OFF c), online = True,
              brightness = (100 * round_half_even y) div 255 \<rparr>"
    using query_device_media [OF assms(1) l x] by blast
  from y(1) have "y = 255 / 2" unfolding m by (simp only: pyfloat.inject)
  with y(2) r have "query_device c e =
               Inr \<lparr> on = (state e \<noteq> STATE_OFF c), online = True,
                     brightness = (100 * 128) div 255 \<rparr>"
    by (simp only:)
  then show ?thesis by simp
qed

lemma err_bind_assoc:
  "err_bind (err_bind m f) g = err_bind m (\<lambda>x. err_bind (f x) g)"
  by (cases m) simp_all

text \<open>
  For a media player the brightness out of 255 comes from the volume level alone, and
  what \<open>round\<close> returns is an int, never \<open>None\<close>, so the default is not applied again.
\<close>

lemma query_device_media_player:
  assumes "domain e = media_player_DOMAIN c"
  shows "query_device c e =
           err_bind (py_min (NFloat (FNum 1))
                       (dict_get_default (attributes e) (media_player_ATTR_MEDIA_VOLUME_LEVEL c)
                          (PFloat (FNum (if state e \<noteq> STATE_OFF c then 1 else 0)))))
             (\<lambda>m. err_bind (num_mul m (NInt 255))
                (\<lambda>p. err_bind (num_round p)
                   (\<lambda>b255. scaled (state e \<noteq> STATE_OFF c) (PInt b255))))"
  using assms
  by (simp add: query_device_def Let_def err_bind_assoc del: num_mul.simps)


lemma percent_range:
  fixes b :: int
  assumes "0 \<le> b" "b \<le> 255"
  shows "0 \<le> (100 * b) div 255" "(100 * b) div 255 \<le> 100"
  using assms by arith+

text \<open>
  C3.  For an entity whose brightness attribute, when present, is an int from 0 to 255
  and whose volume-level attribute, when present, is a float from 0.0 to 1.0,
  \<open>query_device\<close> returns a brightness from 0 to 100 that is
  \<open>100 * b255 div 255\<close>, rounded down, where \<open>b255\<close> is the brightness out of 255 the
  function resolved: the attribute or its on/off default, or for a media player the
  rounded product of the clamped volume level and 255.
\<close>

theorem query_brightness_percent:
  assumes br: "\<forall>v. attributes e (light_ATTR_BRIGHTNESS c) = Some v
                  \<longrightarrow> (\<exists>b. v = PInt b \<and> 0 \<le> b \<and> b \<le> 255)"
    and vol: "\<forall>v. attributes e (media_player_ATTR_MEDIA_VOLUME_LEVEL c) = Some v
                  \<longrightarrow> (\<exists>x. v = PFloat (FNum x) \<and> 0 \<le> x \<and> x \<le> 1)"
  shows "\<exists>b255 r.
           query_device c e = Inr r
         \<and> brightness r = (100 * b255) div 255
         \<and> 0 \<le> brightness r \<and> brightness r \<le> 100
         \<and> 0 \<le> b255 \<and> b255 \<le> 255
         \<and> (domain e \<noteq> media_player_DOMAIN c \<longrightarrow>
               dict_get_default (attributes e) (light_ATTR_BRIGHTNESS c)
                 (PInt (if state e \<noteq> STATE_OFF c then 255 else 0)) = PInt b255)
         \<and> (domain e = media_player_DOMAIN c \<longrightarrow>
               (\<exists>x y. dict_get_default (attributes e) (media_player_ATTR_MEDIA_VOLUME_LEVEL c)
                          (PFloat (FNum (if state e \<noteq> STATE_OFF c then 1 else 0)))
                        = PFloat (FNum x)
                     \<and> float_mul (FNum (min 1 x)) (FNum 255) = FNum y
                     \<and> b255 = round_half_even y))"
proof (cases "domain e = media_player_DOMAIN c")
  case True
  let ?lv = "dict_get_default (attributes e) (media_player_ATTR_MEDIA_VOLUME_LEVEL c)
               (PFloat (FNum (if state e \<noteq> STATE_OFF c then 1 else 0)))"
  have "\<exists>x. ?lv = PFloat (FNum x) \<and> 0 \<le> x"
  proof (cases "attributes e (media_player_ATTR_MEDIA_VOLUME_LEVEL c)")
    case None
    then show ?thesis by (simp add: dict_get_default_def)
  next
    case (Some v)
    with vol obtain x where "v = PFloat (FNum x)" "0 \<le> x" by blast
    with Some show ?thesis by (simp add: dict_get_default_def)
  qed
  then obtain x where x: "?lv = PFloat (FNum x)" and x0: "0 \<le> x" by blast
  obtain y where y1: "float_mul (FNum (min 1 x)) (FNum 255) = FNum y"
    and y2: "0 \<le> round_half_even y" and y3: "round_half_even y \<le> 255"
    and y4: "query_device c e =
               Inr \<lparr> on = (state e \<noteq> STATE_OFF c), online = True,
                     brightness = (100 * round_half_even y) div 255 \<rparr>"
    using query_device_media [OF True x x0] by blast
  let ?r = "\<lparr> on = (state e \<noteq> STATE_OFF c), online = True,
              brightness = (100 * round_half_even y) div 255 \<rparr>"
  show ?thesis
  proof (rule exI [of _ "round_half_even y"], rule exI [of _ ?r], intro conjI impI)
    show "query_device c e = Inr ?r" by (rule y4)
    show "brightness ?r = (100 * round_half_even y) div 255" by simp
    show "0 \<le> brightness ?r" using percent_range(1) [OF y2 y3] by simp
    show "brightness ?r \<le> 100" using percent_range(2) [OF y2 y3] by simp
    show "0 \<le> round_half_even y" by (rule y2)
    show "round_half_even y \<le> 255" by (rule y3)
    show "dict_get_default (attributes e) (light_ATTR_BRIGHTNESS c)
                 (PInt (if state e \<noteq> STATE_OFF c then 255 else 0)) = PInt (round_half_even y)"
      if "domain e \<noteq> media_player_DOMAIN c"
      using that True by simp
    show "\<exists>x ya. ?lv = PFloat (FNum x)
             \<and> float_mul (FNum (min 1 x)) (FNum 255) = FNum ya
             \<and> round_half_even y = round_half_even ya"
      using x y1 by blast
  qed
next
  case False
  let ?bv = "dict_get_default (attributes e) (light_ATTR_BRIGHTNESS c)
               (PInt (if state e \<noteq> STATE_OFF c then 255 else 0))"
  have "\<exists>b. ?bv = PInt b \<and> 0 \<le> b \<and> b \<le> 255
          \<and> query_device c e =
               Inr \<lparr> on = (state e \<noteq> STATE_OFF c), online = True,
                     brightness = (100 * b) div 255 \<rparr>"
  proof (cases "attributes e (light_ATTR_BRIGHTNESS c)")
    case None
    have "query_device c e =
            Inr \<lparr> on = (state e \<noteq> STATE_OFF c), online = True,
                  brightness = (if state e \<noteq> STATE_OFF c then 100 else 0) \<rparr>"
      using query_device_default [OF False] None by blast
    with None show ?thesis by (simp add: dict_get_default_def)
  next
    case (Some v)
    with br obtain b where b: "v = PInt b" "0 \<le> b" "b \<le> 255" by blast
    from Some b(1) have "attributes e (light_ATTR_BRIGHTNESS c) = Some (PInt b)" by simp
    from query_device_byte [OF False this b(2,3)] Some b show ?thesis
      by (simp add: dict_get_default_def)
  qed
  then obtain b where b: "?bv = PInt b" and b0: "0 \<le> b" and b1: "b \<le> 255"
    and q: "query_device c e =
               Inr \<lparr> on = (state e \<noteq> STATE_OFF c), online = True,
                     brightness = (100 * b) div 255 \<rparr>"
    by blast
  let ?r = "\<lparr> on = (state e \<noteq> STATE_OFF c), online = True,
              brightness = (100 * b) div 255 \<rparr>"
  show ?thesis
  proof (rule exI [of _ b], rule exI [of _ ?r], intro conjI impI)
    show "query_device c e = Inr ?r" by (rule q)
    show "brightness ?r = (100 * b) div 255" by simp
    show "0 \<le> brightness ?r" using percent_range(1) [OF b0 b1] by simp
    show "brightness ?r \<le> 100" using percent_range(2) [OF b0 b1] by simp
    show "0 \<le> b" by (rule b0)
    show "b \<le> 255" by (rule b1)
    show "?bv = PInt b" by (rule b)
    show "\<exists>x y. dict_get_default (attributes e) (media_player_ATTR_MEDIA_VOLUME_LEVEL c)
                          (PFloat (FNum (if state e \<noteq> STATE_OFF c then 1 else 0)))
                        = PFloat (FNum x)
                     \<and> float_mul (FNum (min 1 x)) (FNum 255) = FNum y
                     \<and> b = round_half_even y"
      if "domain e = media_player_DOMAIN c"
      using that False by simp
  qed
qed


theorem query_brightness_percent_witness:
  "attributes \<lparr> entity_id = ''light.kitchen'', domain = ''light'', state = ''on'',
                attributes = [''brightness'' \<mapsto> PInt 128] \<rparr>
      (light_ATTR_BRIGHTNESS ha_consts) = Some (PInt 128)
   \<and> (0 :: int) \<le> 128 \<and> (128 :: int) \<le> 255
   \<and> attributes \<lparr> entity_id = ''light.kitchen'', domain = ''light'', state = ''on'',
                  attributes = [''brightness'' \<mapsto> PInt 128] \<rparr>
        (media_player_ATTR_MEDIA_VOLUME_LEVEL ha_consts) = None
   \<and> (\<exists>r. query_device ha_consts
               \<lparr> entity_id = ''light.kitchen'', domain = ''light'', state = ''on'',
                 attributes = [''brightness'' \<mapsto> PInt 128] \<rparr> = Inr r
          \<and> brightness r = 50)"
proof -
  let ?e = "\<lparr> entity_id = ''light.kitchen'', domain = ''light'', state = ''on'',
               attributes = [''brightness'' \<mapsto> PInt 128] \<rparr>"
  have a: "attributes ?e (light_ATTR_BRIGHTNESS ha_consts) = Some (PInt 128)"
    by (simp add: ha_consts_def)
  have n: "attributes ?e (media_player_ATTR_MEDIA_VOLUME_LEVEL ha_consts) = None"
    by (simp add: ha_consts_def)
  have br: "\<forall>v. attributes ?e (light_ATTR_BRIGHTNESS ha_consts) = Some v
                  \<longrightarrow> (\<exists>b. v = PInt b \<and> 0 \<le> b \<and> b \<le> 255)"
    unfolding a by simp
  have vol: "\<forall>v. attributes ?e (media_player_ATTR_MEDIA_VOLUME_LEVEL ha_consts) = Some v
                  \<longrightarrow> (\<exists>x. v = PFloat (FNum x) \<and> 0 \<le> x \<and> x \<le> 1)"
    unfolding n by simp
  obtain b255 r where r: "query_device ha_consts ?e = Inr r"
      "brightness r = (100 * b255) div 255"
      "domain ?e \<noteq> media_player_DOMAIN ha_consts \<longrightarrow>
               dict_get_default (attributes ?e) (light_ATTR_BRIGHTNESS ha_consts)
                 (PInt (if state ?e \<noteq> STATE_OFF ha_consts then 255 else 0)) = PInt b255"
    using query_brightness_percent [OF br vol] by blast
  from r(3) have "b255 = 128" by (simp add: ha_consts_def dict_get_default_def)
  with r(2) have "brightness r = 50" by simp
  with r(1) have "\<exists>r. query_device ha_consts ?e = Inr r \<and> brightness r = 50" by blast
  with a n show ?thesis by simp
qed

text \<open>
  C5.  For every media player, \<open>query_device\<close> is the percent scaling of
  \<open>round(min(1.0, level) * 255)\<close>, where \<open>level\<close> is the volume-level attribute or
  else 1.0 when the state is not off and 0.0 when it is, and raises what this expression
  raises; the brightness attribute has no influence on the result.  When the level is
  a non-negative float \<open>x\<close>, the brightness out of 255 is the double product of
  \<open>min 1 x\<close> and 255 rounded to an int, and the result is its percent scaling; a
  volume level of 0.5 with a state other than off gives a brightness of 50.
\<close>

theorem media_player_volume_brightness:
  assumes "domain e = media_player_DOMAIN c"
  shows "query_device c e =
           err_bind (py_min (NFloat (FNum 1))
                       (dict_get_default (attributes e) (media_player_ATTR_MEDIA_VOLUME_LEVEL c)
                          (PFloat (FNum (if state e \<noteq> STATE_OFF c then 1 else 0)))))
             (\<lambda>m. err_bind (num_mul m (NInt 255))
                (\<lambda>p. err_bind (num_round p)
                   (\<lambda>b255. scaled (state e \<noteq> STATE_OFF c) (PInt b255))))
       \<and> (light_ATTR_BRIGHTNESS c \<noteq> media_player_ATTR_MEDIA_VOLUME_LEVEL c \<longrightarrow>
            (\<forall>bv. query_device c
                     (e\<lparr>attributes := (attributes e)(light_ATTR_BRIGHTNESS c := bv)\<rparr>)
                   = query_device c e))
       \<and> (dict_get_default (attributes e) (media_player_ATTR_MEDIA_VOLUME_LEVEL c)
             (PFloat (FNum (if state e \<noteq> STATE_OFF c then 1 else 0))) = PFloat (FNum x)
            \<and> 0 \<le> x \<longrightarrow>
            (\<exists>y. float_mul (FNum (min 1 x)) (FNum 255) = FNum y
               \<and> query_device c e =
                   Inr \<lparr> on = (state e \<noteq> STATE_OFF c), online = True,
                         brightness = (100 * round_half_even y) div 255 \<rparr>))
       \<and> (attributes e (media_player_ATTR_MEDIA_VOLUME_LEVEL c) = Some (PFloat (FNum (1 / 2)))
            \<and> state e \<noteq> STATE_OFF c \<longrightarrow>
            query_device c e = Inr \<lparr> on = True, online = True, brightness = 50 \<rparr>)"
proof (intro conjI impI allI)
  show "query_device c e =
           err_bind (py_min (NFloat (FNum 1))
                       (dict_get_default (attributes e) (media_player_ATTR_MEDIA_VOLUME_LEVEL c)
                          (PFloat (FNum (if state e \<noteq> STATE_OFF c then 1 else 0)))))
             (\<lambda>m. err_bind (num_mul m (NInt 255))
                (\<lambda>p. err_bind (num_round p)
                   (\<lambda>b255. scaled (state e \<noteq> STATE_OFF c) (PInt b255))))"
    by (rule query_device_media_player [OF assms])
next
  fix bv
  assume ne: "light_ATTR_BRIGHTNESS c \<noteq> media_player_ATTR_MEDIA_VOLUME_LEVEL c"
  let ?e' = "e\<lparr>attributes := (attributes e)(light_ATTR_BRIGHTNESS c := bv)\<rparr>"
  have d: "domain ?e' = media_player_DOMAIN c" using assms by simp
  have l: "dict_get_default (attributes ?e') (media_player_ATTR_MEDIA_VOLUME_LEVEL c) dv
             = dict_get_default (attributes e) (media_player_ATTR_MEDIA_VOLUME_LEVEL c) dv" for dv
    using ne by (simp add: dict_get_default_def)
  have s: "state ?e' = state e" by simp
  show "query_device c ?e' = query_device c e"
    unfolding query_device_media_player [OF d] query_device_media_player [OF assms] l s ..
next
  assume "dict_get_default (attributes e) (media_player_ATTR_MEDIA_VOLUME_LEVEL c)
             (PFloat (FNum (if state e \<noteq> STATE_OFF c then 1 else 0))) = PFloat (FNum x)
            \<and> 0 \<le> x"
  then have l: "dict_get_default (attributes e) (media_player_ATTR_MEDIA_VOLUME_LEVEL c)
             (PFloat (FNum (if state e \<noteq> STATE_OFF c then 1 else 0))) = PFloat (FNum x)"
    and x: "0 \<le> x" by blast+
  from query_device_media [OF assms l x]
  show "\<exists>y. float_mul (FNum (min 1 x)) (FNum 255) = FNum y
               \<and> query_device c e =
                   Inr \<lparr> on = (state e \<noteq> STATE_OFF c), online = True,
                         brightness = (100 * round_half_even y) div 255 \<rparr>"
    by blast
next
  assume h: "attributes e (media_player_ATTR_MEDIA_VOLUME_LEVEL c) = Some (PFloat (FNum (1 / 2)))
            \<and> state e \<noteq> STATE_OFF c"
  then have "query_device c e =
           Inr \<lparr> on = (state e \<noteq> STATE_OFF c), online = True, brightness = 50 \<rparr>"
    using query_device_media_half [OF assms] by blast
  with h show "query_device c e = Inr \<lparr> on = True, online = True, brightness = 50 \<rparr>"
    by simp
qed

theorem media_player_volume_brightness_witness:
  "domain \<lparr> entity_id = ''media_player.tv'', domain = ''media_player'', state = ''playing'',
            attributes = [''volume_level'' \<mapsto> PFloat (FNum (1 / 2)),
                          ''brightness'' \<mapsto> PInt 7] \<rparr> = media_player_DOMAIN ha_consts
   \<and> light_ATTR_BRIGHTNESS ha_consts \<noteq> media_player_ATTR_MEDIA_VOLUME_LEVEL ha_consts
   \<and> (0 :: rat) \<le> 1 / 2
   \<and> query_device ha_consts
        \<lparr> entity_id = ''media_player.tv'', domain = ''media_player'', state = ''playing'',
          attributes = [''volume_level'' \<mapsto> PFloat (FNum (1 / 2)),
                        ''brightness'' \<mapsto> PInt 7] \<rparr>
       = Inr \<lparr> on = True, online = True, brightness = 50 \<rparr>
   \<and> query_device ha_consts
        \<lparr> entity_id = ''media_player.tv'', domain = ''media_player'', state = ''playing'',
          attributes = [''volume_level'' \<mapsto> PFloat (FNum (1 / 2))] \<rparr>
       = Inr \<lparr> on = True, online = True, brightness = 50 \<rparr>"
proof -
  let ?e = "\<lparr> entity_id = ''media_player.tv'', domain = ''media_player'', state = ''playing'',
               attributes = [''volume_level'' \<mapsto> PFloat (FNum (1 / 2)),
                             ''brightness'' \<mapsto> PInt 7] \<rparr>"
  let ?f = "\<lparr> entity_id = ''media_player.tv'', domain = ''media_player'', state = ''playing'',
               attributes = [''volume_level'' \<mapsto> PFloat (FNum (1 / 2))] \<rparr>"
  have d: "domain ?e = media_player_DOMAIN ha_consts" by (simp add: ha_consts_def)
  have ne: "light_ATTR_BRIGHTNESS ha_consts \<noteq> media_player_ATTR_MEDIA_VOLUME_LEVEL ha_consts"
    by (simp add: ha_consts_def)
  have l: "dict_get_default (attributes ?e) (media_player_ATTR_MEDIA_VOLUME_LEVEL ha_consts)
           (PFloat (FNum (if state ?e \<noteq> STATE_OFF ha_consts then 1 else 0)))
             = PFloat (FNum (1 / 2))"
    by (simp add: ha_consts_def dict_get_default_def)
  have x: "(0 :: rat) \<le> 1 / 2" by simp
  have m: "float_mul (FNum (min 1 (1 / 2))) (FNum 255) = FNum (255 / 2)"
    by (simp add: double_eval)
  have r: "round_half_even (255 / 2) = 128"
    by (simp add: double_eval)
  note inst = media_player_volume_brightness [OF d, of "1 / 2"]
  obtain y where y: "float_mul (FNum (min 1 (1 / 2))) (FNum 255) = FNum y"
     "query_device ha_consts ?e =
               Inr \<lparr> on = (state ?e \<noteq> STATE_OFF ha_consts), online = True,
                     brightness = (100 * round_half_even y) div 255 \<rparr>"
    using inst l x by blast
  from y(1) have "y = 255 / 2" unfolding m by (simp only: pyfloat.inject)
  with y(2) r have "query_device ha_consts ?e =
               Inr \<lparr> on = (state ?e \<noteq> STATE_OFF ha_consts), online = True,
                     brightness = (100 * 128) div 255 \<rparr>"
    by (simp only:)
  then have q: "query_device ha_consts ?e = Inr \<lparr> on = True, online = True, brightness = 50 \<rparr>"
    by (simp add: ha_consts_def)
  have "query_device ha_consts
          (?e\<lparr>attributes := (attributes ?e)(light_ATTR_BRIGHTNESS ha_consts := None)\<rparr>)
        = query_device ha_consts ?e"
    using inst ne by blast
  moreover have "?e\<lparr>attributes := (attributes ?e)(light_ATTR_BRIGHTNESS ha_consts := None)\<rparr> = ?f"
    by (simp add: ha_consts_def fun_eq_iff)
  ultimately have q': "query_device ha_consts ?f = query_device ha_consts ?e"
    by (simp only:)
  from d ne x q q' show ?thesis by (simp only: simp_thms)
qed




end
